theory Spec2Isabelle
  imports Complex_Main "HOL-Library.Log_Nat" "HOL-Library.AList"
begin

section \<open>Python numbers\<close>

text \<open>
  Both scripts annotate their operands as \<^verbatim>\<open>float\<close> and call the methods with
  \<^verbatim>\<open>int\<close> literals in their self-tests, so a number is an unbounded integer or a
  float. A Python float is an IEEE-754 binary64 value: a finite value is
  \<open>m * 2 ^ e\<close> with \<open>\<bar>m\<bar> < 2 ^ 53\<close> and \<open>- 1074 \<le> e \<le> 971\<close>, and there are
  two zeros, two infinities and NaN. A finite value is kept as the rational it
  denotes; \<open>Finite 0\<close> is \<^verbatim>\<open>0.0\<close> and \<open>NegZero\<close> is \<^verbatim>\<open>-0.0\<close>.
\<close>

datatype pyfloat = Finite rat | NegZero | PInf | NInf | NaN

datatype pynum = PInt int | PFloat pyfloat

datatype error =
    ValueError string
  | RuntimeError string
  | AssertionError string
  | KeyError string
  | OverflowError string
  | ZeroDivisionError string

definition bind :: "error + 'a \<Rightarrow> ('a \<Rightarrow> error + 'b) \<Rightarrow> error + 'b" where
  "bind m f = (case m of Inl e \<Rightarrow> Inl e | Inr x \<Rightarrow> f x)"

subsection \<open>Rounding to binary64\<close>

definition round_half_even :: "rat \<Rightarrow> int" where
  "round_half_even x =
     (let f = \<lfloor>x\<rfloor>; d = x - of_int f
      in if d < 1/2 then f else if 1/2 < d then f + 1 else if even f then f else f + 1)"

text \<open>The binary exponent of a positive rational: \<open>2 powi ilog2 x \<le> x < 2 powi (ilog2 x + 1)\<close>.\<close>

definition ilog2 :: "rat \<Rightarrow> int" where
  "ilog2 x =
     (let d = bitlen (fst (quotient_of x)) - bitlen (snd (quotient_of x))
      in if 2 powi d \<le> x then d else d - 1)"

definition signed_zero :: "bool \<Rightarrow> pyfloat" where
  "signed_zero neg = (if neg then NegZero else Finite 0)"

definition signed_inf :: "bool \<Rightarrow> pyfloat" where
  "signed_inf neg = (if neg then NInf else PInf)"

text \<open>
  Round to nearest, ties to even, with 53 significant bits, gradual underflow below
  \<open>2 powi (- 1022)\<close> and overflow to infinity from \<open>2 powi 1024\<close> on. A nonzero value
  that rounds to zero keeps its sign.
\<close>

definition round_double :: "rat \<Rightarrow> pyfloat" where
  "round_double x =
     (if x = 0 then Finite 0
      else let e = max (ilog2 \<bar>x\<bar> - 52) (- 1074);
               m = round_half_even (\<bar>x\<bar> / 2 powi e)
           in if m = 0 then signed_zero (x < 0)
              else if (2::rat) powi 1024 \<le> of_int m * 2 powi e then signed_inf (x < 0)
              else Finite (sgn x * of_int m * 2 powi e))"

subsection \<open>Float arithmetic\<close>

fun is_finite :: "pyfloat \<Rightarrow> bool" where
  "is_finite (Finite q) = True"
| "is_finite NegZero = True"
| "is_finite PInf = False"
| "is_finite NInf = False"
| "is_finite NaN = False"

fun is_inf :: "pyfloat \<Rightarrow> bool" where
  "is_inf PInf = True"
| "is_inf NInf = True"
| "is_inf (Finite q) = False"
| "is_inf NegZero = False"
| "is_inf NaN = False"

text \<open>The value of a finite float (0 for the others, which every use rules out first).\<close>

fun fval :: "pyfloat \<Rightarrow> rat" where
  "fval (Finite q) = q"
| "fval NegZero = 0"
| "fval PInf = 0"
| "fval NInf = 0"
| "fval NaN = 0"

text \<open>The sign bit.\<close>

fun fsign :: "pyfloat \<Rightarrow> bool" where
  "fsign (Finite q) = (q < 0)"
| "fsign NegZero = True"
| "fsign PInf = False"
| "fsign NInf = True"
| "fsign NaN = False"

definition is_zero :: "pyfloat \<Rightarrow> bool" where
  "is_zero x = (x = Finite 0 \<or> x = NegZero)"

fun fneg :: "pyfloat \<Rightarrow> pyfloat" where
  "fneg (Finite q) = (if q = 0 then NegZero else Finite (- q))"
| "fneg NegZero = Finite 0"
| "fneg PInf = NInf"
| "fneg NInf = PInf"
| "fneg NaN = NaN"

fun fabs :: "pyfloat \<Rightarrow> pyfloat" where
  "fabs (Finite q) = Finite \<bar>q\<bar>"
| "fabs NegZero = Finite 0"
| "fabs PInf = PInf"
| "fabs NInf = PInf"
| "fabs NaN = NaN"

definition fadd :: "pyfloat \<Rightarrow> pyfloat \<Rightarrow> pyfloat" where
  "fadd x y =
     (if x = NaN \<or> y = NaN then NaN
      else if is_inf x then (if is_inf y \<and> x \<noteq> y then NaN else x)
      else if is_inf y then y
      else if fval x + fval y = 0 then signed_zero (fsign x \<and> fsign y)
      else round_double (fval x + fval y))"

definition fsub :: "pyfloat \<Rightarrow> pyfloat \<Rightarrow> pyfloat" where
  "fsub x y = fadd x (fneg y)"

definition fmul :: "pyfloat \<Rightarrow> pyfloat \<Rightarrow> pyfloat" where
  "fmul x y =
     (if x = NaN \<or> y = NaN then NaN
      else if is_inf x \<or> is_inf y then
        (if is_zero x \<or> is_zero y then NaN else signed_inf (fsign x \<noteq> fsign y))
      else if fval x * fval y = 0 then signed_zero (fsign x \<noteq> fsign y)
      else round_double (fval x * fval y))"

text \<open>
  IEEE division. Python never reaches the zero divisor: \<^verbatim>\<open>float.__truediv__\<close> raises
  \<^verbatim>\<open>ZeroDivisionError\<close> first (see \<open>py_truediv\<close>).
\<close>

definition fdiv :: "pyfloat \<Rightarrow> pyfloat \<Rightarrow> pyfloat" where
  "fdiv x y =
     (if x = NaN \<or> y = NaN then NaN
      else if is_inf x then (if is_inf y then NaN else signed_inf (fsign x \<noteq> fsign y))
      else if is_inf y then signed_zero (fsign x \<noteq> fsign y)
      else if is_zero y then (if is_zero x then NaN else signed_inf (fsign x \<noteq> fsign y))
      else if fval x = 0 then signed_zero (fsign x \<noteq> fsign y)
      else round_double (fval x / fval y))"

subsection \<open>The operators on numbers\<close>

text \<open>
  \<^verbatim>\<open>float(i)\<close> for an int, as the mixed operators apply it: correctly rounded, and
  \<^verbatim>\<open>OverflowError\<close> when the rounded value is out of range.
\<close>

definition float_of_int :: "int \<Rightarrow> error + pyfloat" where
  "float_of_int i =
     (let r = round_double (of_int i)
      in if is_inf r then Inl (OverflowError ''int too large to convert to float'')
         else Inr r)"

fun as_float :: "pynum \<Rightarrow> error + pyfloat" where
  "as_float (PInt i) = float_of_int i"
| "as_float (PFloat x) = Inr x"

definition float_op ::
  "(pyfloat \<Rightarrow> pyfloat \<Rightarrow> pyfloat) \<Rightarrow> pynum \<Rightarrow> pynum \<Rightarrow> error + pynum" where
  "float_op f a b = bind (as_float a) (\<lambda>x. bind (as_float b) (\<lambda>y. Inr (PFloat (f x y))))"

text \<open>\<^verbatim>\<open>a + b\<close>, \<^verbatim>\<open>a - b\<close>, \<^verbatim>\<open>a * b\<close>: exact on two ints, float arithmetic otherwise.\<close>

fun py_add :: "pynum \<Rightarrow> pynum \<Rightarrow> error + pynum" where
  "py_add (PInt i) (PInt j) = Inr (PInt (i + j))"
| "py_add a b = float_op fadd a b"

fun py_sub :: "pynum \<Rightarrow> pynum \<Rightarrow> error + pynum" where
  "py_sub (PInt i) (PInt j) = Inr (PInt (i - j))"
| "py_sub a b = float_op fsub a b"

fun py_mul :: "pynum \<Rightarrow> pynum \<Rightarrow> error + pynum" where
  "py_mul (PInt i) (PInt j) = Inr (PInt (i * j))"
| "py_mul a b = float_op fmul a b"

text \<open>
  \<^verbatim>\<open>a / b\<close>, true division. On two ints the exact quotient is rounded once (and
  \<^verbatim>\<open>0 / j\<close> is a zero with the sign of \<^verbatim>\<open>j\<close>); otherwise both operands become floats.
  A zero divisor raises.
\<close>

definition int_truediv :: "int \<Rightarrow> int \<Rightarrow> error + pynum" where
  "int_truediv i j =
     (if j = 0 then Inl (ZeroDivisionError ''division by zero'')
      else if i = 0 then Inr (PFloat (signed_zero (j < 0)))
      else let r = round_double (of_int i / of_int j)
           in if is_inf r
              then Inl (OverflowError ''integer division result too large for a float'')
              else Inr (PFloat r))"

definition float_truediv :: "pyfloat \<Rightarrow> pyfloat \<Rightarrow> error + pynum" where
  "float_truediv x y =
     (if is_zero y then Inl (ZeroDivisionError ''float division by zero'')
      else Inr (PFloat (fdiv x y)))"

fun py_truediv :: "pynum \<Rightarrow> pynum \<Rightarrow> error + pynum" where
  "py_truediv (PInt i) (PInt j) = int_truediv i j"
| "py_truediv a b = bind (as_float a) (\<lambda>x. bind (as_float b) (\<lambda>y. float_truediv x y))"

fun py_abs :: "pynum \<Rightarrow> pynum" where
  "py_abs (PInt i) = PInt \<bar>i\<bar>"
| "py_abs (PFloat x) = PFloat (fabs x)"

text \<open>
  Comparison is exact, also between an int and a float: a number is placed on the
  extended line (\<open>- 1\<close>, \<open>0\<close>, \<open>1\<close> for minus infinity, finite, plus infinity), and NaN
  has no place, so every comparison with it but \<^verbatim>\<open>!=\<close> is false.
\<close>

fun place :: "pynum \<Rightarrow> (int \<times> rat) option" where
  "place (PInt i) = Some (0, of_int i)"
| "place (PFloat (Finite q)) = Some (0, q)"
| "place (PFloat NegZero) = Some (0, 0)"
| "place (PFloat PInf) = Some (1, 0)"
| "place (PFloat NInf) = Some (- 1, 0)"
| "place (PFloat NaN) = None"

definition py_eq :: "pynum \<Rightarrow> pynum \<Rightarrow> bool" where
  "py_eq a b = (case (place a, place b) of (Some p, Some q) \<Rightarrow> p = q | _ \<Rightarrow> False)"

definition py_ne :: "pynum \<Rightarrow> pynum \<Rightarrow> bool" where
  "py_ne a b = (\<not> py_eq a b)"

definition py_lt :: "pynum \<Rightarrow> pynum \<Rightarrow> bool" where
  "py_lt a b =
     (case (place a, place b) of
        (Some (k, x), Some (l, y)) \<Rightarrow> k < l \<or> (k = l \<and> x < y)
      | _ \<Rightarrow> False)"

text \<open>A float literal of the source, such as \<^verbatim>\<open>1e-9\<close>: the nearest double.\<close>

definition float_literal :: "rat \<Rightarrow> pynum" where
  "float_literal q = PFloat (round_double q)"

section \<open>Parsing a float\<close>

text \<open>
  A Python string is a sequence of code points. A \<open>char\<close> stands for a code point
  below 256, so \<open>string\<close> holds the strings of the Latin-1 range; a string with a code
  point above \<open>U+00FF\<close> is not a value of this theory.

  \<^verbatim>\<open>float(s)\<close> on a string replaces each whitespace character from \<open>U+007F\<close> on by a
  space (in this range: \<open>U+0085\<close> and \<open>U+00A0\<close>) and then drops the surrounding
  whitespace that C's \<^verbatim>\<open>isspace\<close> knows (\<open>U+0009\<close> to \<open>U+000D\<close> and the space); the
  separators \<open>U+001C\<close> to \<open>U+001F\<close> are not dropped. What is left is an optional sign
  and either \<^verbatim>\<open>inf\<close>, \<^verbatim>\<open>infinity\<close> or \<^verbatim>\<open>nan\<close> in any case, or a decimal numeral (digits
  with single underscores between them, an optional fraction, an optional exponent),
  whose exact value is rounded once. Anything else raises \<^verbatim>\<open>ValueError\<close>, with
  \<^verbatim>\<open>repr(s)\<close> in its message.
\<close>

definition is_space :: "char \<Rightarrow> bool" where
  "is_space c = (c \<in> set [CHR 0x09, CHR 0x0A, CHR 0x0B, CHR 0x0C, CHR 0x0D, CHR 0x20,
                           CHR 0x85, CHR 0xA0])"

definition strip :: "string \<Rightarrow> string" where
  "strip s = rev (dropWhile is_space (rev (dropWhile is_space s)))"

definition is_digit :: "char \<Rightarrow> bool" where
  "is_digit c = ((48::nat) \<le> of_char c \<and> of_char c \<le> (57::nat))"

definition lower :: "char \<Rightarrow> char" where
  "lower c = (if (65::nat) \<le> of_char c \<and> of_char c \<le> (90::nat)
              then char_of (of_char c + (32::nat)) else c)"

text \<open>A digit part: it starts and ends with a digit and has no two underscores in a row.\<close>

fun digits_ok :: "string \<Rightarrow> bool" where
  "digits_ok [] = False"
| "digits_ok [c] = is_digit c"
| "digits_ok (c # d # cs) =
     (is_digit c \<and> (if d = CHR ''_'' then digits_ok cs else digits_ok (d # cs)))"

definition digits_val :: "string \<Rightarrow> nat" where
  "digits_val ds = foldl (\<lambda>n c. 10 * n + (of_char c - 48)) 0 (filter is_digit ds)"

definition digits_len :: "string \<Rightarrow> nat" where
  "digits_len ds = length (filter is_digit ds)"

text \<open>Split at the first character that satisfies \<open>P\<close>; the second part is what follows it.\<close>

definition split_at :: "(char \<Rightarrow> bool) \<Rightarrow> string \<Rightarrow> string \<times> string option" where
  "split_at P s =
     (case dropWhile (\<lambda>c. \<not> P c) s of
        [] \<Rightarrow> (s, None)
      | _ # rest \<Rightarrow> (takeWhile (\<lambda>c. \<not> P c) s, Some rest))"

definition take_sign :: "string \<Rightarrow> bool \<times> string" where
  "take_sign s =
     (case s of
        c # cs \<Rightarrow>
          if c = CHR ''-'' then (True, cs) else if c = CHR ''+'' then (False, cs) else (False, s)
      | [] \<Rightarrow> (False, s))"

text \<open>The mantissa \<^verbatim>\<open>12.5\<close>, \<^verbatim>\<open>12.\<close>, \<^verbatim>\<open>.5\<close> or \<^verbatim>\<open>12\<close>: its value, if it is well formed.\<close>

definition mantissa :: "string \<Rightarrow> rat option" where
  "mantissa s =
     (case split_at (\<lambda>c. c = CHR ''.'') s of
        (ip, None) \<Rightarrow> if digits_ok ip then Some (of_nat (digits_val ip)) else None
      | (ip, Some fp) \<Rightarrow>
          if (ip = [] \<or> digits_ok ip) \<and> (fp = [] \<or> digits_ok fp) \<and> \<not> (ip = [] \<and> fp = [])
          then Some (of_nat (digits_val ip) + of_nat (digits_val fp) / 10 ^ digits_len fp)
          else None)"

definition exponent :: "string \<Rightarrow> int option" where
  "exponent s =
     (let (neg, ds) = take_sign s
      in if digits_ok ds then Some (if neg then - int (digits_val ds) else int (digits_val ds))
         else None)"

definition decimal :: "string \<Rightarrow> rat option" where
  "decimal s =
     (case split_at (\<lambda>c. c = CHR ''e'' \<or> c = CHR ''E'') s of
        (m, None) \<Rightarrow> mantissa m
      | (m, Some ex) \<Rightarrow>
          (case (mantissa m, exponent ex) of
             (Some q, Some k) \<Rightarrow> Some (q * 10 powi k)
           | _ \<Rightarrow> None))"

text \<open>
  \<^verbatim>\<open>repr(s)\<close>: the string between single quotes, or between double quotes when it has a
  single quote and no double quote; the quote in use and the backslash are escaped,
  tab, newline and return are written \<^verbatim>\<open>\t\<close>, \<^verbatim>\<open>\n\<close>, \<^verbatim>\<open>\r\<close>, and every other
  character that is not printable (the controls, \<open>U+007F\<close> to \<open>U+00A0\<close>, \<open>U+00AD\<close>) is
  written \<^verbatim>\<open>\xhh\<close>.
\<close>

definition hex_digit :: "nat \<Rightarrow> char" where
  "hex_digit n = ''0123456789abcdef'' ! n"

definition printable :: "char \<Rightarrow> bool" where
  "printable c =
     (let n = of_char c :: nat
      in (32 \<le> n \<and> n < 127) \<or> (160 < n \<and> n \<noteq> 173))"

definition repr_char :: "char \<Rightarrow> char \<Rightarrow> string" where
  "repr_char quote c =
     (if c = quote \<or> c = CHR 0x5C then [CHR 0x5C, c]
      else if c = CHR 0x09 then [CHR 0x5C, CHR ''t'']
      else if c = CHR 0x0A then [CHR 0x5C, CHR ''n'']
      else if c = CHR 0x0D then [CHR 0x5C, CHR ''r'']
      else if printable c then [c]
      else [CHR 0x5C, CHR ''x'', hex_digit (of_char c div 16), hex_digit (of_char c mod 16)])"

definition py_repr :: "string \<Rightarrow> string" where
  "py_repr s =
     (let quote = (if CHR 0x27 \<in> set s \<and> CHR 0x22 \<notin> set s then CHR 0x22 else CHR 0x27)
      in [quote] @ concat (map (repr_char quote) s) @ [quote])"

definition py_float :: "string \<Rightarrow> error + pyfloat" where
  "py_float s =
     (let (neg, body) = take_sign (strip s); word = map lower body
      in if word = ''inf'' \<or> word = ''infinity'' then Inr (signed_inf neg)
         else if word = ''nan'' then Inr NaN
         else case decimal body of
                None \<Rightarrow> Inl (ValueError (''could not convert string to float: '' @ py_repr s))
              | Some q \<Rightarrow>
                  if q = 0 then Inr (signed_zero neg)
                  else Inr (round_double (if neg then - q else q)))"

section \<open>The toggleable calculator (agile\_calculator.py)\<close>

definition PRODUCT_BACKLOG :: "string list" where
  "PRODUCT_BACKLOG =
     [''I1: Add basic addition'',
      ''I2: Add subtraction'',
      ''I3: Add multiplication & division'',
      ''I4: Add safe division by zero handling'',
      ''I5: Add history of operations (nice-to-have)'']"

text \<open>
  The feature toggles are a module-level dict, read by the constructor and by every
  call of \<^verbatim>\<open>run\<close> and \<^verbatim>\<open>get_history\<close>. The dict is a parameter of each operation,
  so that its value at construction and its value at a later call can differ.
  \<open>FEATURES\<close> is the table the script ships.
\<close>

type_synonym features = "(string \<times> bool) list"

definition FEATURES :: features where
  "FEATURES =
     [(''add'', True), (''subtract'', True), (''multiply'', True), (''divide'', True),
      (''history'', False)]"

text \<open>\<^verbatim>\<open>F[k]\<close> raises \<^verbatim>\<open>KeyError\<close> on a missing key; \<^verbatim>\<open>F.get(k)\<close> is \<^verbatim>\<open>None\<close> there, which is falsy.\<close>

definition getitem :: "features \<Rightarrow> string \<Rightarrow> error + bool" where
  "getitem F k = (case map_of F k of None \<Rightarrow> Inl (KeyError k) | Some v \<Rightarrow> Inr v)"

definition get_truthy :: "features \<Rightarrow> string \<Rightarrow> bool" where
  "get_truthy F k = (map_of F k = Some True)"

type_synonym binop = "pynum \<Rightarrow> pynum \<Rightarrow> error + pynum"

type_synonym entry = "string \<times> pynum \<times> pynum \<times> pynum"

record AgileCalculator =
  history :: "entry list"
  ops :: "string \<rightharpoonup> binop"

text \<open>The four lambdas of the registry. The last one: \<^verbatim>\<open>a / b if b != 0 else float("inf")\<close>.\<close>

definition op_add :: binop where
  "op_add a b = py_add a b"

definition op_subtract :: binop where
  "op_subtract a b = py_sub a b"

definition op_multiply :: binop where
  "op_multiply a b = py_mul a b"

definition op_divide :: binop where
  "op_divide a b = (if py_ne b (PInt 0) then py_truediv a b else Inr (PFloat PInf))"

definition register ::
  "features \<Rightarrow> string \<Rightarrow> binop \<Rightarrow> (string \<rightharpoonup> binop) \<Rightarrow> error + (string \<rightharpoonup> binop)" where
  "register F name f reg = bind (getitem F name) (\<lambda>on. Inr (if on then reg(name \<mapsto> f) else reg))"

definition AgileCalculator_init :: "features \<Rightarrow> error + AgileCalculator" where
  "AgileCalculator_init F =
     bind (register F ''add'' op_add Map.empty) (\<lambda>r1.
     bind (register F ''subtract'' op_subtract r1) (\<lambda>r2.
     bind (register F ''multiply'' op_multiply r2) (\<lambda>r3.
     bind (register F ''divide'' op_divide r3) (\<lambda>r4.
     Inr \<lparr>history = [], ops = r4\<rparr>))))"

definition unavailable :: "string \<Rightarrow> error" where
  "unavailable op =
     ValueError (''Feature '' @ [CHR 0x27] @ op @ [CHR 0x27] @
                 '' not available yet (toggle off or not built).'')"

text \<open>
  \<^verbatim>\<open>run\<close> returns what the call returns or raises, and the object after the call.
\<close>

definition run ::
  "features \<Rightarrow> AgileCalculator \<Rightarrow> string \<Rightarrow> pynum \<Rightarrow> pynum \<Rightarrow> (error + pynum) \<times> AgileCalculator" where
  "run F self op a b =
     (case ops self op of
        None \<Rightarrow> (Inl (unavailable op), self)
      | Some f \<Rightarrow>
          (case f a b of
             Inl e \<Rightarrow> (Inl e, self)
           | Inr result \<Rightarrow>
               (Inr result,
                if get_truthy F ''history''
                then self\<lparr>history := history self @ [(op, a, b, result)]\<rparr>
                else self)))"

definition get_history :: "features \<Rightarrow> AgileCalculator \<Rightarrow> error + entry list" where
  "get_history F self =
     (if \<not> get_truthy F ''history'' then Inl (RuntimeError ''History feature not enabled yet.'')
      else Inr (history self))"

subsection \<open>The self-tests (\<^verbatim>\<open>_tests\<close>)\<close>

definition py_assert :: "bool \<Rightarrow> error + unit" where
  "py_assert c = (if c then Inr () else Inl (AssertionError []))"

text \<open>\<^verbatim>\<open>abs(x - n) < 1e-9\<close>\<close>

definition near :: "pynum \<Rightarrow> pynum \<Rightarrow> error + bool" where
  "near x n = bind (py_sub x n) (\<lambda>d. Inr (py_lt (py_abs d) (float_literal (1 / 10 ^ 9))))"

text \<open>One call of \<^verbatim>\<open>calc.run\<close> in a sequence: the result and the object go on to \<open>k\<close>.\<close>

definition run_then ::
  "features \<Rightarrow> AgileCalculator \<Rightarrow> string \<Rightarrow> pynum \<Rightarrow> pynum \<Rightarrow>
   (pynum \<Rightarrow> AgileCalculator \<Rightarrow> error + 'a) \<Rightarrow> error + 'a" where
  "run_then F self op a b k =
     (case run F self op a b of (Inl e, self') \<Rightarrow> Inl e | (Inr r, self') \<Rightarrow> k r self')"

definition agile_tests :: "features \<Rightarrow> error + unit" where
  "agile_tests F =
     bind (AgileCalculator_init F) (\<lambda>calc.
     run_then F calc ''add'' (PInt 2) (PInt 3) (\<lambda>r calc.
     bind (near r (PInt 5)) (\<lambda>c. bind (py_assert c) (\<lambda>_.
     run_then F calc ''subtract'' (PInt 7) (PInt 4) (\<lambda>r calc.
     bind (near r (PInt 3)) (\<lambda>c. bind (py_assert c) (\<lambda>_.
     run_then F calc ''multiply'' (PInt 3) (PInt 4) (\<lambda>r calc.
     bind (near r (PInt 12)) (\<lambda>c. bind (py_assert c) (\<lambda>_.
     run_then F calc ''divide'' (PInt 10) (PInt 0) (\<lambda>r calc.
     bind (py_assert (py_eq r (PFloat PInf))) (\<lambda>_.
     (case get_history F calc of
        Inr h \<Rightarrow> Inl (AssertionError ''History should not be accessible when feature is off.'')
      | Inl (RuntimeError m) \<Rightarrow> Inr ()
      | Inl e \<Rightarrow> Inl e)))))))))))))"

subsection \<open>The command line\<close>

text \<open>
  What a run of a script leaves behind: the lines it printed on standard output, and
  how it ended. An uncaught exception ends the process with a traceback on standard
  error and exit status 1.
\<close>

datatype printed = Text string | Num pynum

datatype ending = Returned | SysExit nat | Uncaught error

type_synonym process = "printed list \<times> ending"

fun exit_code :: "ending \<Rightarrow> nat" where
  "exit_code Returned = 0"
| "exit_code (SysExit n) = n"
| "exit_code (Uncaught e) = 1"

definition join_lines :: "string list \<Rightarrow> string" where
  "join_lines ls =
     (case ls of [] \<Rightarrow> [] | l # rest \<Rightarrow> foldl (\<lambda>acc x. acc @ [CHR 0x0A] @ x) l rest)"

definition agile_run_cli_doc :: string where
  "agile_run_cli_doc = join_lines
     [[],
      ''    Usage:'',
      ''      python agile_calculator.py backlog'',
      ''      python agile_calculator.py features'',
      ''      python agile_calculator.py <op> <a> <b>'',
      ''    Examples:'',
      ''      python agile_calculator.py add 5 3'',
      ''      python agile_calculator.py divide 10 0'',
      ''    '']"

text \<open>\<open>argv\<close> is \<^verbatim>\<open>sys.argv\<close>: the script's name, then the arguments.\<close>

definition agile_run_cli :: "features \<Rightarrow> string list \<Rightarrow> process" where
  "agile_run_cli F argv =
     (let args = drop 1 argv
      in if args = [] then ([Text agile_run_cli_doc], Returned)
         else if args ! 0 = ''backlog''
         then (Text ''Product Backlog:'' # map (\<lambda>item. Text ('' - '' @ item)) PRODUCT_BACKLOG,
               Returned)
         else if args ! 0 = ''features''
         then (Text ''Feature Toggles:'' #
                 map (\<lambda>(k, v). Text ('' - '' @ k @ '': '' @ (if v then ''ON'' else ''OFF''))) F,
               Returned)
         else if length args = 3
         then (case py_float (args ! 1) of
                 Inl e \<Rightarrow> ([], Uncaught e)
               | Inr a \<Rightarrow>
                   (case py_float (args ! 2) of
                      Inl e \<Rightarrow> ([], Uncaught e)
                    | Inr b \<Rightarrow>
                        (case AgileCalculator_init F of
                           Inl e \<Rightarrow> ([], Uncaught e)
                         | Inr calc \<Rightarrow>
                             (case fst (run F calc (args ! 0) (PFloat a) (PFloat b)) of
                                Inr r \<Rightarrow> ([Num r], Returned)
                              | Inl (ValueError m) \<Rightarrow>
                                  ([Text (''Not available yet: '' @ m)], Returned)
                              | Inl e \<Rightarrow> ([], Uncaught e)))))
         else ([Text agile_run_cli_doc], Returned))"

text \<open>
  The \<^verbatim>\<open>__main__\<close> block of both scripts: the self-test, then the command line. An
  exception of the self-test ends the process before the command line starts.
\<close>

definition main_block :: "error + unit \<Rightarrow> process \<Rightarrow> process" where
  "main_block t cli = (case t of Inl e \<Rightarrow> ([], Uncaught e) | Inr u \<Rightarrow> cli)"

definition agile_main :: "features \<Rightarrow> string list \<Rightarrow> process" where
  "agile_main F argv = main_block (agile_tests F) (agile_run_cli F argv)"

section \<open>The fixed calculator (waterfall\_calculator.py)\<close>

text \<open>
  The class \<^verbatim>\<open>Calculator\<close> has no fields: its two methods are functions of the
  operands.
\<close>

definition Calculator_add :: "pynum \<Rightarrow> pynum \<Rightarrow> error + pynum" where
  "Calculator_add a b = py_add a b"

definition Calculator_subtract :: "pynum \<Rightarrow> pynum \<Rightarrow> error + pynum" where
  "Calculator_subtract a b = py_sub a b"

text \<open>
  An object of the class is its two methods. The module holds one,
  \<^verbatim>\<open>calc = Calculator()\<close>, and both \<^verbatim>\<open>_self_test\<close> and \<^verbatim>\<open>run_cli\<close> call the methods of
  that module-level object: it is a parameter of both, as the flag table is in the
  other script, and \<open>calc\<close> is the object the script creates.
\<close>

record Calculator =
  add :: binop
  subtract :: binop

definition calc :: Calculator where
  "calc = \<lparr>add = Calculator_add, subtract = Calculator_subtract\<rparr>"

definition waterfall_usage :: string where
  "waterfall_usage = ''Usage: python waterfall_calculator.py <add|subtract> <a> <b>''"

definition waterfall_rejection :: string where
  "waterfall_rejection =
     ''Error: Operation not allowed by scope. Use '' @ [CHR 0x27] @ ''add'' @ [CHR 0x27] @
     '' or '' @ [CHR 0x27] @ ''subtract'' @ [CHR 0x27] @ '' only.''"

definition print_result :: "error + pynum \<Rightarrow> process" where
  "print_result r = (case r of Inl e \<Rightarrow> ([], Uncaught e) | Inr v \<Rightarrow> ([Num v], Returned))"

definition waterfall_run_cli :: "Calculator \<Rightarrow> string list \<Rightarrow> process" where
  "waterfall_run_cli c argv =
     (if length argv \<noteq> 4 then ([Text waterfall_usage], SysExit 1)
      else case py_float (argv ! 2) of
             Inl e \<Rightarrow> ([], Uncaught e)
           | Inr a \<Rightarrow>
               (case py_float (argv ! 3) of
                  Inl e \<Rightarrow> ([], Uncaught e)
                | Inr b \<Rightarrow>
                    if argv ! 1 = ''add'' then print_result (add c (PFloat a) (PFloat b))
                    else if argv ! 1 = ''subtract''
                    then print_result (subtract c (PFloat a) (PFloat b))
                    else ([Text waterfall_rejection], SysExit 2)))"

text \<open>\<^verbatim>\<open>_self_test\<close>\<close>

definition waterfall_self_test :: "Calculator \<Rightarrow> error + unit" where
  "waterfall_self_test c =
     bind (add c (PInt 5) (PInt 3)) (\<lambda>r.
     bind (py_assert (py_eq r (PInt 8))) (\<lambda>_.
     bind (subtract c (PInt 5) (PInt 3)) (\<lambda>r.
     py_assert (py_eq r (PInt 2)))))"

definition waterfall_main :: "Calculator \<Rightarrow> string list \<Rightarrow> process" where
  "waterfall_main c argv = main_block (waterfall_self_test c) (waterfall_run_cli c argv)"

section \<open>The words of the specification\<close>

text \<open>
  The mathematically correct result of an operation on exact values, as the
  specification names it: \<open>a + b\<close>, \<open>a - b\<close>, \<open>a * b\<close>, \<open>a / b\<close>.
\<close>

definition exact_result :: "string \<Rightarrow> rat \<Rightarrow> rat \<Rightarrow> rat" where
  "exact_result op x y =
     (if op = ''add'' then x + y
      else if op = ''subtract'' then x - y
      else if op = ''multiply'' then x * y
      else x / y)"

text \<open>The exact value of a finite number, and the numbers that have one.\<close>

fun num_val :: "pynum \<Rightarrow> rat" where
  "num_val (PInt i) = of_int i"
| "num_val (PFloat x) = fval x"

fun finite_num :: "pynum \<Rightarrow> bool" where
  "finite_num (PInt i) = True"
| "finite_num (PFloat x) = is_finite x"

fun is_int :: "pynum \<Rightarrow> bool" where
  "is_int (PInt i) = True"
| "is_int (PFloat x) = False"

text \<open>
  An operand that takes part in float arithmetic with its exact value: a finite float,
  or an int that converts to a float without rounding (every int of magnitude at most
  \<open>2 ^ 53\<close> does).
\<close>

fun exact_operand :: "pynum \<Rightarrow> bool" where
  "exact_operand (PInt i) = (round_double (of_int i) = Finite (of_int i))"
| "exact_operand (PFloat x) = is_finite x"

text \<open>
  The exact results that one rounding keeps within \<open>1e-9\<close>: those of magnitude at most
  \<open>2 ^ 24\<close>, where half a unit in the last place is at most \<open>2 powi (- 30)\<close>, and those
  that are doubles themselves.
\<close>

definition within_reach :: "rat \<Rightarrow> bool" where
  "within_reach v = (\<bar>v\<bar> \<le> 2 ^ 24 \<or> round_double v = Finite v)"

section \<open>Helper lemmas\<close>

lemma round_half_even_near: "\<bar>of_int (round_half_even x) - x\<bar> \<le> 1/2"
proof -
  have "of_int \<lfloor>x\<rfloor> \<le> x" and "x < of_int \<lfloor>x\<rfloor> + 1"
    by linarith+
  then show ?thesis
    unfolding round_half_even_def Let_def by (simp add: abs_le_iff)
qed

lemma ilog2_le:
  assumes "0 < x"
  shows "2 powi (ilog2 x) \<le> x"
proof -
  obtain p q where pq: "quotient_of x = (p, q)" by (cases "quotient_of x")
  have q: "0 < q" using pq quotient_of_denom_pos by blast
  have x: "x = of_int p / of_int q" using pq quotient_of_div by blast
  have p: "0 < p" using assms q x
    by (simp add: zero_less_divide_iff)
  define d where "d = bitlen p - bitlen q"
  have bp: "(2::int) ^ nat (bitlen p - 1) \<le> p" using bitlen_bounds [OF p] by simp
  have bq: "q < 2 ^ nat (bitlen q)" using bitlen_bounds [OF q] by simp
  have bp1: "1 \<le> bitlen p" using p bitlen_eq_zero_iff [of p] bitlen_nonneg [of p] by linarith
  have "(2::rat) powi (d - 1) = 2 powi (bitlen p - 1) / 2 powi (bitlen q)"
    by (simp add: d_def power_int_diff)
  also have "\<dots> = of_int (2 ^ nat (bitlen p - 1)) / of_int (2 ^ nat (bitlen q))"
    using bp1 bitlen_nonneg [of q] by (simp add: power_int_def)
  also have "\<dots> \<le> of_int p / of_int q"
  proof (rule frac_le)
    show "(0::rat) \<le> of_int p" using p by simp
    show "(of_int (2 ^ nat (bitlen p - 1)) :: rat) \<le> of_int p"
      using bp by (simp only: of_int_le_iff)
    show "(0::rat) < of_int q" using q by simp
    show "(of_int q :: rat) \<le> of_int (2 ^ nat (bitlen q))"
      using bq by (simp only: of_int_le_iff)
  qed
  finally have low: "(2::rat) powi (d - 1) \<le> x" using x by simp
  show ?thesis
    using low unfolding ilog2_def Let_def pq d_def by simp
qed

lemma ilog2_upper:
  assumes "0 < x" "x \<le> 2 powi n"
  shows "ilog2 x \<le> n"
proof -
  have le: "(2::rat) powi (ilog2 x) \<le> 2 powi n"
    using ilog2_le [OF assms(1)] assms(2) by linarith
  show ?thesis
  proof (rule ccontr)
    assume "\<not> ilog2 x \<le> n"
    then have "n < ilog2 x" by simp
    then have "(2::rat) powi n < 2 powi (ilog2 x)"
      by (rule power_int_strict_increasing) simp
    with le show False by simp
  qed
qed

lemma ilog2_less:
  assumes "0 < x" "x < 2 powi n"
  shows "ilog2 x < n"
proof (rule ccontr)
  assume "\<not> ilog2 x < n"
  then have "n \<le> ilog2 x" by simp
  then have "(2::rat) powi n \<le> 2 powi (ilog2 x)"
    by (intro power_int_increasing) simp_all
  with ilog2_le [OF assms(1)] assms(2) show False by simp
qed

lemma round_half_even_int: "round_half_even (of_int n) = n"
  by (simp add: round_half_even_def)

text \<open>An int of magnitude at most \<open>2 ^ 53\<close> converts to a float without rounding.\<close>

lemma round_double_int:
  assumes "\<bar>i\<bar> \<le> 2 ^ 53"
  shows "round_double (of_int i) = Finite (of_int i)"
proof (cases "i = 0")
  case True
  then show ?thesis by (simp add: round_double_def)
next
  case False
  define x :: rat where "x = of_int i"
  define a where "a = \<bar>x\<bar>"
  define e where "e = max (ilog2 a - 52) (- 1074)"
  define m where "m = round_half_even (a / 2 powi e)"
  have x0: "x \<noteq> 0" using False by (simp add: x_def)
  have ai: "a = of_int \<bar>i\<bar>" by (simp add: a_def x_def)
  have a: "0 < a" using x0 by (simp add: a_def)
  have "(of_int \<bar>i\<bar> :: rat) \<le> of_int (2 ^ 53)" using assms by (simp only: of_int_le_iff)
  then have a53: "a \<le> 2 powi 53" by (simp add: ai)
  have k: "ilog2 a \<le> 53" using ilog2_upper [OF a a53] .
  have "\<exists>n. a = of_int n * 2 powi e"
  proof (cases "e \<le> 0")
    case True
    then have "(2::rat) powi e * 2 ^ nat (- e) = 1"
      by (simp add: power_int_def field_simps)
    then have "a = of_int (\<bar>i\<bar> * 2 ^ nat (- e)) * 2 powi e"
      by (simp add: ai mult.assoc mult.commute)
    then show ?thesis by blast
  next
    case False
    then have "e = 1" and "ilog2 a = 53" using k by (simp_all add: e_def)
    then have "2 powi 53 \<le> a" using ilog2_le [OF a] by simp
    then have "a = 2 ^ 53" using a53 by simp
    then have "a = of_int (2 ^ 52) * 2 powi e" using \<open>e = 1\<close> by simp
    then show ?thesis by blast
  qed
  then obtain n where n: "a = of_int n * 2 powi e" by blast
  have "a / 2 powi e = of_int n" using n by simp
  then have mn: "m = n" by (simp add: m_def round_half_even_int)
  have m0: "m \<noteq> 0" using a n mn by auto
  have "a < 2 powi 54" using a53 by simp
  also have "\<dots> \<le> (2::rat) powi 1024" by (intro power_int_increasing) simp_all
  finally have noover: "\<not> (2::rat) powi 1024 \<le> of_int m * 2 powi e" using n mn by simp
  have "sgn x * of_int m * 2 powi e = sgn x * a" using n mn by simp
  also have "\<dots> = x" by (simp add: a_def sgn_mult_abs)
  finally have val: "sgn x * of_int m * 2 powi e = x" .
  show ?thesis
    using x0 m0 noover val
    by (simp add: round_double_def Let_def x_def [symmetric]
          a_def [symmetric] e_def [symmetric] m_def [symmetric])
qed

text \<open>
  Rounding a value of magnitude at most \<open>2 ^ 24\<close> moves it by at most half a unit in
  the last place, which is at most \<open>2 powi (- 30)\<close> below \<open>2 ^ 24\<close>; and \<open>2 ^ 24\<close>
  itself is a double.
\<close>

lemma round_double_below:
  assumes "\<bar>x\<bar> < 2 ^ 24"
  shows "is_finite (round_double x) \<and> \<bar>fval (round_double x) - x\<bar> \<le> 1 / 2 ^ 30"
proof (cases "x = 0")
  case True
  then show ?thesis by (simp add: round_double_def)
next
  case False
  define a where "a = \<bar>x\<bar>"
  define e where "e = max (ilog2 a - 52) (- 1074)"
  define m where "m = round_half_even (a / 2 powi e)"
  have a: "0 < a" using False by (simp add: a_def)
  have a24: "a < 2 powi 24" using assms by (simp add: a_def)
  have "ilog2 a < 24" using ilog2_less [OF a a24] .
  then have e: "e \<le> - 29" by (simp add: e_def)
  have pe: "(0::rat) < 2 powi e" by simp
  have "(2::rat) powi e \<le> 2 powi (- 29)"
    using e by (intro power_int_increasing) simp_all
  then have pe_small: "(2::rat) powi e \<le> 1 / 2 ^ 29"
    by (simp add: power_int_minus field_simps)
  have near: "\<bar>of_int m - a / 2 powi e\<bar> \<le> 1/2"
    unfolding m_def by (rule round_half_even_near)
  have "\<bar>of_int m * 2 powi e - a\<bar> = \<bar>of_int m - a / 2 powi e\<bar> * 2 powi e"
    using pe by (simp add: abs_mult_pos' [symmetric] field_simps)
  also have "\<dots> \<le> 1/2 * 2 powi e"
    using near pe by (intro mult_right_mono) simp_all
  finally have scaled: "\<bar>of_int m * 2 powi e - a\<bar> \<le> 2 powi e / 2" by simp
  have err: "\<bar>of_int m * 2 powi e - a\<bar> \<le> 1 / 2 ^ 30"
    using scaled pe_small by simp
  have "of_int m * 2 powi e \<le> a + 1 / 2 ^ 30" using err by linarith
  also have "\<dots> < 2 powi 25" using a24 by simp
  also have "\<dots> \<le> (2::rat) powi 1024" by (intro power_int_increasing) simp_all
  finally have noover: "\<not> (2::rat) powi 1024 \<le> of_int m * 2 powi e" by simp
  have xa: "x = sgn x * a" by (simp add: a_def sgn_mult_abs)
  have sg: "\<bar>sgn x\<bar> = 1" using False by (simp add: abs_sgn_eq)
  have fin: "\<bar>sgn x * of_int m * 2 powi e - x\<bar> = \<bar>of_int m * 2 powi e - a\<bar>"
  proof -
    have "sgn x * of_int m * 2 powi e - x = sgn x * (of_int m * 2 powi e - a)"
      using xa by (simp add: algebra_simps)
    then show ?thesis using sg by (simp add: abs_mult)
  qed
  show ?thesis
  proof (cases "m = 0")
    case True
    have "\<bar>x\<bar> \<le> 1 / 2 ^ 30" using err True by (simp add: a_def)
    then show ?thesis
      using False True
      by (simp add: round_double_def Let_def signed_zero_def
            a_def [symmetric] e_def [symmetric] m_def [symmetric])
  next
    case nz: False
    show ?thesis
      using False nz noover fin err
      by (simp add: round_double_def Let_def
            a_def [symmetric] e_def [symmetric] m_def [symmetric])
  qed
qed

lemma round_double_near:
  assumes "\<bar>x\<bar> \<le> 2 ^ 24"
  shows "is_finite (round_double x) \<and> \<bar>fval (round_double x) - x\<bar> \<le> 1 / 2 ^ 30"
proof (cases "\<bar>x\<bar> < 2 ^ 24")
  case True
  then show ?thesis by (rule round_double_below)
next
  case False
  then have "x = of_int (2 ^ 24) \<or> x = of_int (- (2 ^ 24))"
    using assms by (auto simp: abs_if split: if_splits)
  then show ?thesis
    using round_double_int [of "2 ^ 24"] round_double_int [of "- (2 ^ 24)"] by auto
qed

text \<open>What the constructor builds: an empty history, and one entry for each flag that is on.\<close>

lemma init_Inr:
  assumes "AgileCalculator_init F = Inr c"
  shows "history c = []"
    and "ops c op =
            (if op = ''divide'' \<and> map_of F ''divide'' = Some True then Some op_divide
             else if op = ''multiply'' \<and> map_of F ''multiply'' = Some True then Some op_multiply
             else if op = ''subtract'' \<and> map_of F ''subtract'' = Some True then Some op_subtract
             else if op = ''add'' \<and> map_of F ''add'' = Some True then Some op_add
             else None)"
proof -
  obtain fa fs fm fd where f: "map_of F ''add'' = Some fa" "map_of F ''subtract'' = Some fs"
     "map_of F ''multiply'' = Some fm" "map_of F ''divide'' = Some fd"
    using assms
    by (auto simp: AgileCalculator_init_def register_def getitem_def bind_def
             split: option.splits)
  have c: "c = \<lparr>history = [],
             ops = (\<lambda>r. if fd then r(''divide'' \<mapsto> op_divide) else r)
                   ((\<lambda>r. if fm then r(''multiply'' \<mapsto> op_multiply) else r)
                   ((\<lambda>r. if fs then r(''subtract'' \<mapsto> op_subtract) else r)
                   ((\<lambda>r. if fa then r(''add'' \<mapsto> op_add) else r) Map.empty)))\<rparr>"
    using assms f
    by (simp add: AgileCalculator_init_def register_def getitem_def bind_def)
  show "history c = []" by (simp add: c)
  show "ops c op =
            (if op = ''divide'' \<and> map_of F ''divide'' = Some True then Some op_divide
             else if op = ''multiply'' \<and> map_of F ''multiply'' = Some True then Some op_multiply
             else if op = ''subtract'' \<and> map_of F ''subtract'' = Some True then Some op_subtract
             else if op = ''add'' \<and> map_of F ''add'' = Some True then Some op_add
             else None)"
    by (simp add: c f)
qed

subsection \<open>Evaluating the scripts\<close>

lemmas parse_defs = py_float_def strip_def is_space_def take_sign_def lower_def decimal_def
  split_at_def mantissa_def exponent_def is_digit_def digits_val_def digits_len_def
  py_repr_def repr_char_def printable_def

lemma py_float_x:
  "py_float ''x'' =
     Inl (ValueError (''could not convert string to float: '' @ [CHR 0x27] @ ''x'' @ [CHR 0x27]))"
  "py_repr ''x'' = [CHR 0x27] @ ''x'' @ [CHR 0x27]"
  by (simp_all add: parse_defs Let_def)

lemma py_float_2: "py_float ''2'' = Inr (Finite 2)"
  using round_double_int [of 2] by (simp add: parse_defs)

lemma py_float_3: "py_float ''3'' = Inr (Finite 3)"
  using round_double_int [of 3] by (simp add: parse_defs)

lemma py_float_Inl:
  "py_float s = Inl e \<Longrightarrow> e = ValueError (''could not convert string to float: '' @ py_repr s)"
  by (auto simp: py_float_def Let_def split: prod.splits if_splits option.splits)

text \<open>The literal \<^verbatim>\<open>1e-9\<close> is a positive float.\<close>

lemma literal_pos: "py_lt (PInt 0) (float_literal (1 / 1000000000))"
proof -
  define r where "r = round_double (1 / 1000000000)"
  have "is_finite r \<and> \<bar>fval r - 1 / 1000000000\<bar> \<le> 1 / 2 ^ 30"
    unfolding r_def by (rule round_double_near) simp
  then have fin: "is_finite r" and b: "\<bar>fval r - 1 / 1000000000\<bar> \<le> 1 / 2 ^ 30"
    by simp_all
  have "(1::rat) / 2 ^ 30 < 1 / 1000000000" by simp
  with b have "0 < fval r" by linarith
  with fin have "is_finite r" and "0 < fval r" by simp_all
  then show ?thesis
    by (cases r) (simp_all add: py_lt_def float_literal_def r_def [symmetric])
qed

lemma init_FEATURES:
  "AgileCalculator_init FEATURES =
     Inr \<lparr>history = [],
          ops = [''add'' \<mapsto> op_add, ''subtract'' \<mapsto> op_subtract,
                 ''multiply'' \<mapsto> op_multiply, ''divide'' \<mapsto> op_divide]\<rparr>"
  by (simp add: AgileCalculator_init_def FEATURES_def register_def getitem_def bind_def)

lemma history_off: "get_truthy FEATURES ''history'' = False"
  by (simp add: get_truthy_def FEATURES_def)

lemma agile_tests_pass: "agile_tests FEATURES = Inr ()"
  using literal_pos
  by (simp add: agile_tests_def init_FEATURES run_then_def run_def near_def bind_def
        py_assert_def py_eq_def py_ne_def op_add_def op_subtract_def op_multiply_def
        op_divide_def get_history_def history_off)

lemma waterfall_self_test_pass: "waterfall_self_test calc = Inr ()"
  by (simp add: waterfall_self_test_def calc_def Calculator_add_def Calculator_subtract_def
        bind_def py_assert_def py_eq_def)

lemma main_block_simps:
  "main_block (Inl e) cli = ([], Uncaught e)" "main_block (Inr u) cli = cli"
  by (simp_all add: main_block_def)

lemma agile_main_FEATURES: "agile_main FEATURES argv = agile_run_cli FEATURES argv"
  by (simp add: agile_main_def agile_tests_pass main_block_simps)

lemma waterfall_main_eq: "waterfall_main calc argv = waterfall_run_cli calc argv"
  by (simp add: waterfall_main_def waterfall_self_test_pass main_block_simps)

lemma history_on_tests:
  "agile_tests (AList.update ''history'' True FEATURES) =
     Inl (AssertionError ''History should not be accessible when feature is off.'')"
proof -
  have i: "AgileCalculator_init (AList.update ''history'' True FEATURES) =
     Inr \<lparr>history = [],
          ops = [''add'' \<mapsto> op_add, ''subtract'' \<mapsto> op_subtract,
                 ''multiply'' \<mapsto> op_multiply, ''divide'' \<mapsto> op_divide]\<rparr>"
    by (simp add: AgileCalculator_init_def FEATURES_def register_def getitem_def bind_def)
  have h: "get_truthy (AList.update ''history'' True FEATURES) ''history'' = True"
    by (simp add: get_truthy_def FEATURES_def)
  show ?thesis
    using literal_pos
    by (simp add: agile_tests_def i run_then_def run_def near_def bind_def
        py_assert_def py_eq_def py_ne_def op_add_def op_subtract_def op_multiply_def
        op_divide_def get_history_def h)
qed

lemma py_float_5: "py_float ''5'' = Inr (Finite 5)"
  using round_double_int [of 5] by (simp add: parse_defs)

lemma fadd_5_3: "fadd (Finite 5) (Finite 3) = Finite 8"
  using round_double_int [of 8] by (simp add: fadd_def)

lemma fsub_5_3: "fsub (Finite 5) (Finite 3) = Finite 2"
  using round_double_int [of 2] by (simp add: fsub_def fadd_def)

text \<open>On two floats the four registered operations never raise.\<close>

lemma py_ne_zero: "py_ne (PFloat y) (PInt 0) = (\<not> is_zero y)"
  by (cases y) (auto simp: py_ne_def py_eq_def is_zero_def)

lemma float_ops:
  "op_add (PFloat x) (PFloat y) = Inr (PFloat (fadd x y))"
  "op_subtract (PFloat x) (PFloat y) = Inr (PFloat (fsub x y))"
  "op_multiply (PFloat x) (PFloat y) = Inr (PFloat (fmul x y))"
  "op_divide (PFloat x) (PFloat y) = Inr (PFloat (if is_zero y then PInf else fdiv x y))"
  by (simp_all add: op_add_def op_subtract_def op_multiply_def op_divide_def float_op_def
        bind_def py_ne_zero float_truediv_def)

lemma run_float_Inr:
  assumes "ops c op = Some f" "f \<in> {op_add, op_subtract, op_multiply, op_divide}"
  shows "\<exists>r. fst (run F c op (PFloat a) (PFloat b)) = Inr (PFloat r)"
  using assms by (auto simp: run_def float_ops)

lemma init_ops_cases:
  assumes "AgileCalculator_init F = Inr c"
  shows "ops c op = None \<or> (\<exists>f. ops c op = Some f \<and> f \<in> {op_add, op_subtract, op_multiply, op_divide})"
  using init_Inr(2) [OF assms, of op] by (auto split: if_splits)

text \<open>The command line on three arguments whose operands parse.\<close>

lemma agile_run_cli_three:
  assumes "length (drop 1 argv) = 3"
      and "drop 1 argv ! 0 \<noteq> ''backlog''" "drop 1 argv ! 0 \<noteq> ''features''"
      and "py_float (drop 1 argv ! 1) = Inr a" "py_float (drop 1 argv ! 2) = Inr b"
      and "AgileCalculator_init F = Inr c"
  shows "\<exists>out. agile_run_cli F argv = ([out], Returned) \<and>
           (ops c (drop 1 argv ! 0) = None \<longrightarrow>
              out = Text (''Not available yet: Feature '' @ [CHR 0x27] @ drop 1 argv ! 0 @
                          [CHR 0x27] @ '' not available yet (toggle off or not built).'')) \<and>
           (ops c (drop 1 argv ! 0) \<noteq> None \<longrightarrow>
              (\<exists>r. out = Num (PFloat r) \<and>
                   fst (run F c (drop 1 argv ! 0) (PFloat a) (PFloat b)) = Inr (PFloat r)))"
proof -
  have ne: "drop 1 argv \<noteq> []" using assms(1) by auto
  show ?thesis
  proof (cases "ops c (drop 1 argv ! 0)")
    case None
    then show ?thesis
      using assms ne
      by (simp add: agile_run_cli_def Let_def run_def unavailable_def)
  next
    case (Some f)
    then have "f \<in> {op_add, op_subtract, op_multiply, op_divide}"
      using init_ops_cases [OF assms(6), of "drop 1 argv ! 0"] by auto
    then obtain r where "fst (run F c (drop 1 argv ! 0) (PFloat a) (PFloat b)) = Inr (PFloat r)"
      using run_float_Inr [OF Some] by blast
    then show ?thesis
      using assms ne Some
      by (simp add: agile_run_cli_def Let_def)
  qed
qed

lemma init_history_on:
  "AgileCalculator_init (AList.update ''history'' True FEATURES) =
     Inr \<lparr>history = [],
          ops = [''add'' \<mapsto> op_add, ''subtract'' \<mapsto> op_subtract,
                 ''multiply'' \<mapsto> op_multiply, ''divide'' \<mapsto> op_divide]\<rparr>"
  by (simp add: AgileCalculator_init_def FEATURES_def register_def getitem_def bind_def)

lemma as_float_error: "as_float a = Inl e \<Longrightarrow> \<exists>m. e = OverflowError m"
  by (cases a) (auto simp: float_of_int_def Let_def split: if_splits)

lemma float_op_error: "float_op g a b = Inl e \<Longrightarrow> \<exists>m. e = OverflowError m"
  by (auto simp: float_op_def bind_def split: sum.splits dest: as_float_error)

lemma py_truediv_error:
  "py_truediv a b = Inl e \<Longrightarrow> (\<exists>m. e = OverflowError m) \<or> (\<exists>m. e = ZeroDivisionError m)"
  by (cases a; cases b)
     (auto simp: int_truediv_def float_truediv_def bind_def float_of_int_def Let_def
           split: if_splits sum.splits)

text \<open>No registered operation raises \<^verbatim>\<open>ValueError\<close>.\<close>

lemma op_not_ValueError:
  assumes "f \<in> {op_add, op_subtract, op_multiply, op_divide}"
  shows "f a b \<noteq> Inl (ValueError m)"
proof
  assume e: "f a b = Inl (ValueError m)"
  consider "f = op_add" | "f = op_subtract" | "f = op_multiply" | "f = op_divide"
    using assms by auto
  then show False
  proof cases
    case 1
    then show ?thesis
      using e float_op_error [of fadd a b] by (cases a; cases b) (auto simp: op_add_def)
  next
    case 2
    then show ?thesis
      using e float_op_error [of fsub a b] by (cases a; cases b) (auto simp: op_subtract_def)
  next
    case 3
    then show ?thesis
      using e float_op_error [of fmul a b] by (cases a; cases b) (auto simp: op_multiply_def)
  next
    case 4
    then show ?thesis
      using e py_truediv_error [of a b] by (auto simp: op_divide_def split: if_splits)
  qed
qed

subsection \<open>The error of the float operations\<close>

lemma finite_not_inf: "is_finite x \<Longrightarrow> \<not> is_inf x \<and> x \<noteq> NaN"
  by (cases x) simp_all

lemma finite_zero_iff: "is_finite x \<Longrightarrow> is_zero x \<longleftrightarrow> fval x = 0"
  by (cases x) (simp_all add: is_zero_def)

lemma signed_zero_val: "is_finite (signed_zero s) \<and> fval (signed_zero s) = 0"
  by (simp add: signed_zero_def)

lemma fneg_finite: "is_finite x \<Longrightarrow> is_finite (fneg x) \<and> fval (fneg x) = - fval x"
  by (cases x) simp_all

lemma round_double_good:
  assumes "within_reach x"
  shows "is_finite (round_double x) \<and> \<bar>fval (round_double x) - x\<bar> \<le> 1 / 2 ^ 30"
proof (cases "round_double x = Finite x")
  case True
  then show ?thesis by simp
next
  case False
  then have "\<bar>x\<bar> \<le> 2 ^ 24" using assms by (simp add: within_reach_def)
  then show ?thesis by (rule round_double_near)
qed

lemma fadd_near:
  assumes "is_finite x" "is_finite y" "within_reach (fval x + fval y)"
  shows "is_finite (fadd x y) \<and> \<bar>fval (fadd x y) - (fval x + fval y)\<bar> \<le> 1 / 2 ^ 30"
  using assms finite_not_inf [of x] finite_not_inf [of y] round_double_good [of "fval x + fval y"]
  by (simp add: fadd_def signed_zero_val)

lemma fsub_near:
  assumes "is_finite x" "is_finite y" "within_reach (fval x - fval y)"
  shows "is_finite (fsub x y) \<and> \<bar>fval (fsub x y) - (fval x - fval y)\<bar> \<le> 1 / 2 ^ 30"
  using fadd_near [of x "fneg y"] assms fneg_finite [of y]
  by (simp add: fsub_def)

lemma fmul_near:
  assumes "is_finite x" "is_finite y" "within_reach (fval x * fval y)"
  shows "is_finite (fmul x y) \<and> \<bar>fval (fmul x y) - fval x * fval y\<bar> \<le> 1 / 2 ^ 30"
  using assms finite_not_inf [of x] finite_not_inf [of y] round_double_good [of "fval x * fval y"]
  by (simp add: fmul_def signed_zero_val)

lemma fdiv_near:
  assumes "is_finite x" "is_finite y" "fval y \<noteq> 0" "within_reach (fval x / fval y)"
  shows "is_finite (fdiv x y) \<and> \<bar>fval (fdiv x y) - fval x / fval y\<bar> \<le> 1 / 2 ^ 30"
  using assms finite_not_inf [of x] finite_not_inf [of y] round_double_good [of "fval x / fval y"]
    finite_zero_iff [of y]
  by (simp add: fdiv_def signed_zero_val)

lemma exact_operand_small: "\<bar>i\<bar> \<le> 2 ^ 53 \<Longrightarrow> exact_operand (PInt i)"
  by (simp add: round_double_int)

lemma as_float_exact:
  assumes "exact_operand a"
  shows "\<exists>x. as_float a = Inr x \<and> is_finite x \<and> fval x = num_val a"
  using assms by (cases a) (simp_all add: float_of_int_def)

text \<open>
  A float operation on two exact operands whose float result is within \<open>2 powi (- 30)\<close>
  of a value \<open>v\<close>.
\<close>

lemma float_op_near:
  assumes a: "exact_operand a" and b: "exact_operand b"
      and g: "\<And>x y. is_finite x \<Longrightarrow> is_finite y \<Longrightarrow> fval x = num_val a \<Longrightarrow>
                  fval y = num_val b \<Longrightarrow>
                  is_finite (g x y) \<and> \<bar>fval (g x y) - v\<bar> \<le> 1 / 2 ^ 30"
  shows "\<exists>r. float_op g a b = Inr r \<and> finite_num r \<and> \<bar>num_val r - v\<bar> \<le> 1 / 2 ^ 30"
proof -
  obtain x where x: "as_float a = Inr x" "is_finite x" "fval x = num_val a"
    using as_float_exact [OF a] by blast
  obtain y where y: "as_float b = Inr y" "is_finite y" "fval y = num_val b"
    using as_float_exact [OF b] by blast
  show ?thesis
    using g [OF x(2) y(2) x(3) y(3)] x(1) y(1) by (simp add: float_op_def bind_def)
qed

text \<open>
  The operands of the lemmas below: two ints, or two operands that take part in float
  arithmetic with their exact values.
\<close>

lemma not_both_int:
  assumes "(is_int a \<and> is_int b) \<or> (exact_operand a \<and> exact_operand b)"
      and "\<not> (is_int a \<and> is_int b)"
  shows "exact_operand a" "exact_operand b"
  using assms by auto

lemma py_add_near:
  assumes ok: "(is_int a \<and> is_int b) \<or> (exact_operand a \<and> exact_operand b)"
      and v: "within_reach (num_val a + num_val b)"
  shows "\<exists>r. py_add a b = Inr r \<and> finite_num r \<and>
             \<bar>num_val r - (num_val a + num_val b)\<bar> \<le> 1 / 2 ^ 30"
proof (cases "is_int a \<and> is_int b")
  case True
  then show ?thesis by (cases a; cases b) simp_all
next
  case False
  have "\<exists>r. float_op fadd a b = Inr r \<and> finite_num r \<and>
             \<bar>num_val r - (num_val a + num_val b)\<bar> \<le> 1 / 2 ^ 30"
  proof (rule float_op_near [OF not_both_int [OF ok False]])
    fix x y
    assume "is_finite x" "is_finite y" "fval x = num_val a" "fval y = num_val b"
    then show "is_finite (fadd x y) \<and>
               \<bar>fval (fadd x y) - (num_val a + num_val b)\<bar> \<le> 1 / 2 ^ 30"
      using fadd_near [of x y] v by simp
  qed
  then show ?thesis using False by (cases a; cases b) simp_all
qed

lemma py_sub_near:
  assumes ok: "(is_int a \<and> is_int b) \<or> (exact_operand a \<and> exact_operand b)"
      and v: "within_reach (num_val a - num_val b)"
  shows "\<exists>r. py_sub a b = Inr r \<and> finite_num r \<and>
             \<bar>num_val r - (num_val a - num_val b)\<bar> \<le> 1 / 2 ^ 30"
proof (cases "is_int a \<and> is_int b")
  case True
  then show ?thesis by (cases a; cases b) simp_all
next
  case False
  have "\<exists>r. float_op fsub a b = Inr r \<and> finite_num r \<and>
             \<bar>num_val r - (num_val a - num_val b)\<bar> \<le> 1 / 2 ^ 30"
  proof (rule float_op_near [OF not_both_int [OF ok False]])
    fix x y
    assume "is_finite x" "is_finite y" "fval x = num_val a" "fval y = num_val b"
    then show "is_finite (fsub x y) \<and>
               \<bar>fval (fsub x y) - (num_val a - num_val b)\<bar> \<le> 1 / 2 ^ 30"
      using fsub_near [of x y] v by simp
  qed
  then show ?thesis using False by (cases a; cases b) simp_all
qed

lemma py_mul_near:
  assumes ok: "(is_int a \<and> is_int b) \<or> (exact_operand a \<and> exact_operand b)"
      and v: "within_reach (num_val a * num_val b)"
  shows "\<exists>r. py_mul a b = Inr r \<and> finite_num r \<and>
             \<bar>num_val r - num_val a * num_val b\<bar> \<le> 1 / 2 ^ 30"
proof (cases "is_int a \<and> is_int b")
  case True
  then show ?thesis by (cases a; cases b) simp_all
next
  case False
  have "\<exists>r. float_op fmul a b = Inr r \<and> finite_num r \<and>
             \<bar>num_val r - num_val a * num_val b\<bar> \<le> 1 / 2 ^ 30"
  proof (rule float_op_near [OF not_both_int [OF ok False]])
    fix x y
    assume "is_finite x" "is_finite y" "fval x = num_val a" "fval y = num_val b"
    then show "is_finite (fmul x y) \<and>
               \<bar>fval (fmul x y) - num_val a * num_val b\<bar> \<le> 1 / 2 ^ 30"
      using fmul_near [of x y] v by simp
  qed
  then show ?thesis using False by (cases a; cases b) simp_all
qed

lemma int_truediv_near:
  assumes "j \<noteq> 0" "within_reach (of_int i / of_int j)"
  shows "\<exists>r. int_truediv i j = Inr r \<and> finite_num r \<and>
             \<bar>num_val r - of_int i / of_int j\<bar> \<le> 1 / 2 ^ 30"
  using assms round_double_good [of "of_int i / of_int j"]
    finite_not_inf [of "round_double (of_int i / of_int j)"]
  by (simp add: int_truediv_def Let_def signed_zero_val)

lemma py_truediv_near:
  assumes ok: "(is_int a \<and> is_int b) \<or> (exact_operand a \<and> exact_operand b)"
      and nz: "num_val b \<noteq> 0"
      and v: "within_reach (num_val a / num_val b)"
  shows "\<exists>r. py_truediv a b = Inr r \<and> finite_num r \<and>
             \<bar>num_val r - num_val a / num_val b\<bar> \<le> 1 / 2 ^ 30"
proof (cases "is_int a \<and> is_int b")
  case True
  then obtain i j where "a = PInt i" "b = PInt j" by (cases a; cases b) simp_all
  then show ?thesis
    using nz v int_truediv_near [of j i] by simp
next
  case False
  note ex = not_both_int [OF ok False]
  obtain x where x: "as_float a = Inr x" "is_finite x" "fval x = num_val a"
    using as_float_exact [OF ex(1)] by blast
  obtain y where y: "as_float b = Inr y" "is_finite y" "fval y = num_val b"
    using as_float_exact [OF ex(2)] by blast
  have "\<exists>r. bind (as_float a) (\<lambda>x. bind (as_float b) (\<lambda>y. float_truediv x y)) = Inr r \<and>
             finite_num r \<and> \<bar>num_val r - num_val a / num_val b\<bar> \<le> 1 / 2 ^ 30"
    using x y nz v fdiv_near [of x y] finite_zero_iff [of y]
    by (simp add: bind_def float_truediv_def)
  then show ?thesis using False by (cases a; cases b) simp_all
qed

text \<open>
  Off the two-int case, and with a result other than zero, an operation on exact
  operands returns the exact result rounded once.
\<close>

lemma float_op_round:
  assumes a: "exact_operand a" and b: "exact_operand b"
      and g: "\<And>x y. is_finite x \<Longrightarrow> is_finite y \<Longrightarrow> fval x = num_val a \<Longrightarrow>
                  fval y = num_val b \<Longrightarrow> g x y = w"
  shows "float_op g a b = Inr (PFloat w)"
proof -
  obtain x where x: "as_float a = Inr x" "is_finite x" "fval x = num_val a"
    using as_float_exact [OF a] by blast
  obtain y where y: "as_float b = Inr y" "is_finite y" "fval y = num_val b"
    using as_float_exact [OF b] by blast
  show ?thesis
    using g [OF x(2) y(2) x(3) y(3)] x(1) y(1) by (simp add: float_op_def bind_def)
qed

lemma py_arith_round:
  assumes ok: "(is_int a \<and> is_int b) \<or> (exact_operand a \<and> exact_operand b)"
      and ni: "\<not> (is_int a \<and> is_int b)"
  shows "num_val a + num_val b \<noteq> 0 \<Longrightarrow>
           py_add a b = Inr (PFloat (round_double (num_val a + num_val b)))"
    and "num_val a - num_val b \<noteq> 0 \<Longrightarrow>
           py_sub a b = Inr (PFloat (round_double (num_val a - num_val b)))"
    and "num_val a * num_val b \<noteq> 0 \<Longrightarrow>
           py_mul a b = Inr (PFloat (round_double (num_val a * num_val b)))"
    and "num_val b \<noteq> 0 \<Longrightarrow> num_val a / num_val b \<noteq> 0 \<Longrightarrow>
           py_truediv a b = Inr (PFloat (round_double (num_val a / num_val b)))"
proof -
  note ex = not_both_int [OF ok ni]
  have add: "float_op fadd a b = Inr (PFloat (round_double (num_val a + num_val b)))"
    if "num_val a + num_val b \<noteq> 0"
  proof (rule float_op_round [OF ex])
    fix x y
    assume "is_finite x" "is_finite y" "fval x = num_val a" "fval y = num_val b"
    then show "fadd x y = round_double (num_val a + num_val b)"
      using that finite_not_inf [of x] finite_not_inf [of y] by (simp add: fadd_def)
  qed
  have sub: "float_op fsub a b = Inr (PFloat (round_double (num_val a - num_val b)))"
    if "num_val a - num_val b \<noteq> 0"
  proof (rule float_op_round [OF ex])
    fix x y
    assume "is_finite x" "is_finite y" "fval x = num_val a" "fval y = num_val b"
    then show "fsub x y = round_double (num_val a - num_val b)"
      using that finite_not_inf [of x] finite_not_inf [of "fneg y"] fneg_finite [of y]
      by (simp add: fsub_def fadd_def)
  qed
  have mul: "float_op fmul a b = Inr (PFloat (round_double (num_val a * num_val b)))"
    if "num_val a * num_val b \<noteq> 0"
  proof (rule float_op_round [OF ex])
    fix x y
    assume "is_finite x" "is_finite y" "fval x = num_val a" "fval y = num_val b"
    then show "fmul x y = round_double (num_val a * num_val b)"
      using that finite_not_inf [of x] finite_not_inf [of y] by (simp add: fmul_def)
  qed
  have dv: "bind (as_float a) (\<lambda>x. bind (as_float b) (\<lambda>y. float_truediv x y)) =
              Inr (PFloat (round_double (num_val a / num_val b)))"
    if "num_val b \<noteq> 0" "num_val a / num_val b \<noteq> 0"
  proof -
    obtain x where x: "as_float a = Inr x" "is_finite x" "fval x = num_val a"
      using as_float_exact [OF ex(1)] by blast
    obtain y where y: "as_float b = Inr y" "is_finite y" "fval y = num_val b"
      using as_float_exact [OF ex(2)] by blast
    show ?thesis
      using x y that finite_not_inf [of x] finite_not_inf [of y] finite_zero_iff [of y]
      by (simp add: bind_def float_truediv_def fdiv_def)
  qed
  show "num_val a + num_val b \<noteq> 0 \<Longrightarrow>
           py_add a b = Inr (PFloat (round_double (num_val a + num_val b)))"
    using add ni by (cases a; cases b) simp_all
  show "num_val a - num_val b \<noteq> 0 \<Longrightarrow>
           py_sub a b = Inr (PFloat (round_double (num_val a - num_val b)))"
    using sub ni by (cases a; cases b) simp_all
  show "num_val a * num_val b \<noteq> 0 \<Longrightarrow>
           py_mul a b = Inr (PFloat (round_double (num_val a * num_val b)))"
    using mul ni by (cases a; cases b) simp_all
  show "num_val b \<noteq> 0 \<Longrightarrow> num_val a / num_val b \<noteq> 0 \<Longrightarrow>
           py_truediv a b = Inr (PFloat (round_double (num_val a / num_val b)))"
    using dv ni by (cases a; cases b) simp_all
qed

lemma py_ne_zero_num: "finite_num b \<Longrightarrow> py_ne b (PInt 0) \<longleftrightarrow> num_val b \<noteq> 0"
proof (cases b)
  case (PInt j)
  then show ?thesis by (simp add: py_ne_def py_eq_def)
next
  case (PFloat y)
  assume "finite_num b"
  then show ?thesis using PFloat by (cases y) (simp_all add: py_ne_def py_eq_def)
qed

lemma operand_finite: "is_int a \<or> exact_operand a \<Longrightarrow> finite_num a"
  by (cases a) simp_all

text \<open>Halfway cases, which round to the neighbour with the even significand.\<close>

lemma round_double_1e16_1: "round_double 10000000000000001 = Finite 10000000000000000"
  by code_simp

lemma round_double_1e16: "round_double 10000000000000000 = Finite 10000000000000000"
  by code_simp

lemma round_double_2p24: "round_double (9007199254740993 / 536870912) = Finite 16777216"
  by code_simp

lemma round_double_2p53_1: "round_double 9007199254740993 = Finite 9007199254740992"
  by code_simp

lemma round_double_2m29: "round_double (1 / 536870912) = Finite (1 / 536870912)"
  by code_simp

section \<open>The claims\<close>

text \<open>
  C3: for an operation name that is not in the registry (its flag was off at
  construction, or it is not one of the four names), \<^verbatim>\<open>run\<close> raises the
  "feature unavailable" \<^verbatim>\<open>ValueError\<close>, whose message carries the name, and the
  object (its history included) is what it was before the call.
\<close>

theorem run_unavailable:
  assumes "ops self op = None \<or>
           (AgileCalculator_init F0 = Inr self \<and>
            \<not> (op \<in> set [''add'', ''subtract'', ''multiply'', ''divide''] \<and>
               map_of F0 op = Some True))"
  shows "run F self op a b =
           (Inl (ValueError (''Feature '' @ [CHR 0x27] @ op @ [CHR 0x27] @
                             '' not available yet (toggle off or not built).'')), self)"
proof -
  have "ops self op = None"
    using assms by (auto simp: init_Inr(2) split: if_splits)
  then show ?thesis by (simp add: run_def unavailable_def)
qed

theorem run_unavailable_witness:
  "ops \<lparr>history = [(''add'', PInt 1, PInt 1, PInt 2)], ops = [''add'' \<mapsto> op_add]\<rparr> ''power'' = None
   \<and> run FEATURES \<lparr>history = [(''add'', PInt 1, PInt 1, PInt 2)], ops = [''add'' \<mapsto> op_add]\<rparr>
         ''power'' (PInt 2) (PInt 3) =
       (Inl (ValueError (''Feature '' @ [CHR 0x27] @ ''power'' @ [CHR 0x27] @
                         '' not available yet (toggle off or not built).'')),
        \<lparr>history = [(''add'', PInt 1, PInt 1, PInt 2)], ops = [''add'' \<mapsto> op_add]\<rparr>)
   \<and> AgileCalculator_init (AList.update ''multiply'' False FEATURES) =
       Inr \<lparr>history = [],
            ops = [''add'' \<mapsto> op_add, ''subtract'' \<mapsto> op_subtract, ''divide'' \<mapsto> op_divide]\<rparr>
   \<and> map_of (AList.update ''multiply'' False FEATURES) ''multiply'' \<noteq> Some True
   \<and> run FEATURES
         \<lparr>history = [],
          ops = [''add'' \<mapsto> op_add, ''subtract'' \<mapsto> op_subtract, ''divide'' \<mapsto> op_divide]\<rparr>
         ''multiply'' (PInt 3) (PInt 4) =
       (Inl (ValueError (''Feature '' @ [CHR 0x27] @ ''multiply'' @ [CHR 0x27] @
                         '' not available yet (toggle off or not built).'')),
        \<lparr>history = [],
         ops = [''add'' \<mapsto> op_add, ''subtract'' \<mapsto> op_subtract, ''divide'' \<mapsto> op_divide]\<rparr>)"
proof -
  let ?c = "\<lparr>history = [(''add'', PInt 1, PInt 1, PInt 2)], ops = [''add'' \<mapsto> op_add]\<rparr>"
  let ?F0 = "AList.update ''multiply'' False FEATURES"
  let ?d = "\<lparr>history = [],
            ops = [''add'' \<mapsto> op_add, ''subtract'' \<mapsto> op_subtract, ''divide'' \<mapsto> op_divide]\<rparr>"
  have h: "ops ?c ''power'' = None"
    by simp
  have i: "AgileCalculator_init ?F0 = Inr ?d"
    by (simp add: AgileCalculator_init_def FEATURES_def register_def getitem_def bind_def)
  have m: "map_of ?F0 ''multiply'' \<noteq> Some True"
    by (simp add: FEATURES_def)
  have off: "AgileCalculator_init ?F0 = Inr ?d \<and>
             \<not> (''multiply'' \<in> set [''add'', ''subtract'', ''multiply'', ''divide''] \<and>
                map_of ?F0 ''multiply'' = Some True)"
    using i m by simp
  note 1 = run_unavailable [OF disjI1, OF h, of FEATURES "PInt 2" "PInt 3"]
  note 2 = run_unavailable [OF disjI2, OF off, of FEATURES "PInt 3" "PInt 4"]
  show ?thesis using h i m 1 2 by (intro conjI)
qed

text \<open>
  C5: while the history flag is not true, \<^verbatim>\<open>get_history\<close> raises \<^verbatim>\<open>RuntimeError\<close> on
  every object, also on the object a call of \<^verbatim>\<open>run\<close> leaves, and that error is not
  the \<^verbatim>\<open>ValueError\<close> that \<^verbatim>\<open>run\<close> raises for an unavailable feature.
\<close>

theorem get_history_disabled:
  assumes "map_of F ''history'' \<noteq> Some True"
  shows "get_history F self = Inl (RuntimeError ''History feature not enabled yet.'')
         \<and> get_history F (snd (run F self op a b)) =
             Inl (RuntimeError ''History feature not enabled yet.'')
         \<and> (\<forall>op' m. unavailable op' \<noteq> RuntimeError m)
         \<and> (\<forall>op'. \<exists>m. unavailable op' = ValueError m)"
  using assms by (simp add: get_history_def get_truthy_def unavailable_def)

theorem get_history_disabled_witness:
  "map_of FEATURES ''history'' \<noteq> Some True
   \<and> get_history FEATURES \<lparr>history = [(''add'', PInt 1, PInt 1, PInt 2)], ops = [''add'' \<mapsto> op_add]\<rparr> =
       Inl (RuntimeError ''History feature not enabled yet.'')"
proof -
  have h: "map_of FEATURES ''history'' \<noteq> Some True"
    by (simp add: FEATURES_def)
  show ?thesis using h get_history_disabled [OF h] by blast
qed

text \<open>
  C8: the fixed calculator's \<^verbatim>\<open>add\<close> and \<^verbatim>\<open>subtract\<close> return \<^verbatim>\<open>a + b\<close> and \<^verbatim>\<open>a - b\<close>
  for all operands: the exact sum and difference of two ints, the float sum and
  difference of two floats. \<^verbatim>\<open>add(5, 3)\<close> is 8 and \<^verbatim>\<open>subtract(5, 3)\<close> is 2, as ints and
  as floats, and \<^verbatim>\<open>==\<close> holds of them exactly.
\<close>

theorem Calculator_add_subtract:
  "Calculator_add a b = py_add a b \<and> Calculator_subtract a b = py_sub a b
   \<and> Calculator_add (PInt i) (PInt j) = Inr (PInt (i + j))
   \<and> Calculator_subtract (PInt i) (PInt j) = Inr (PInt (i - j))
   \<and> Calculator_add (PFloat x) (PFloat y) = Inr (PFloat (fadd x y))
   \<and> Calculator_subtract (PFloat x) (PFloat y) = Inr (PFloat (fsub x y))
   \<and> Calculator_add (PInt 5) (PInt 3) = Inr (PInt 8)
   \<and> Calculator_subtract (PInt 5) (PInt 3) = Inr (PInt 2)
   \<and> Calculator_add (PFloat (Finite 5)) (PFloat (Finite 3)) = Inr (PFloat (Finite 8))
   \<and> Calculator_subtract (PFloat (Finite 5)) (PFloat (Finite 3)) = Inr (PFloat (Finite 2))
   \<and> py_eq (PInt 8) (PInt 8) \<and> py_eq (PInt 2) (PInt 2)
   \<and> py_eq (PFloat (Finite 8)) (PInt 8) \<and> py_eq (PFloat (Finite 2)) (PInt 2)"
  using round_double_int [of 8] round_double_int [of 2]
  by (simp add: Calculator_add_def Calculator_subtract_def float_op_def bind_def py_eq_def
        fadd_def fsub_def)

text \<open>
  C9: in both scripts the self-test runs first and the command line only after it
  returned. With the flags the script ships, every assertion of \<^verbatim>\<open>_tests\<close> holds, and
  with the calculator the script creates, every assertion of \<^verbatim>\<open>_self_test\<close> holds, so
  a run is the command line's run. Whenever the self-test raises, under any flag table
  and with any calculator object, the process ends with that exception and has printed
  nothing, whatever the arguments are.
\<close>

theorem self_tests_first:
  "agile_tests FEATURES = Inr () \<and> waterfall_self_test calc = Inr ()
   \<and> agile_main FEATURES argv = agile_run_cli FEATURES argv
   \<and> waterfall_main calc argv = waterfall_run_cli calc argv
   \<and> (\<forall>e. agile_tests F = Inl e \<longrightarrow> agile_main F argv = ([], Uncaught e))
   \<and> (\<forall>e. waterfall_self_test c = Inl e \<longrightarrow> waterfall_main c argv = ([], Uncaught e))
   \<and> (agile_tests F = Inr () \<longrightarrow> agile_main F argv = agile_run_cli F argv)
   \<and> (waterfall_self_test c = Inr () \<longrightarrow> waterfall_main c argv = waterfall_run_cli c argv)"
  by (simp add: agile_tests_pass waterfall_self_test_pass agile_main_FEATURES
        waterfall_main_eq main_block_simps agile_main_def waterfall_main_def)

text \<open>
  The witness: with the history flag on, the last assertion of \<^verbatim>\<open>_tests\<close> fails; with
  a calculator whose \<^verbatim>\<open>add\<close> subtracts, the first assertion of \<^verbatim>\<open>_self_test\<close> fails.
\<close>

theorem self_tests_first_witness:
  "agile_tests (AList.update ''history'' True FEATURES) =
     Inl (AssertionError ''History should not be accessible when feature is off.'')
   \<and> agile_main (AList.update ''history'' True FEATURES)
         [''agile_calculator.py'', ''add'', ''5'', ''3''] =
     ([], Uncaught (AssertionError ''History should not be accessible when feature is off.''))
   \<and> waterfall_self_test \<lparr>add = Calculator_subtract, subtract = Calculator_subtract\<rparr> =
     Inl (AssertionError [])
   \<and> waterfall_main \<lparr>add = Calculator_subtract, subtract = Calculator_subtract\<rparr>
         [''waterfall_calculator.py'', ''add'', ''5'', ''3''] =
     ([], Uncaught (AssertionError []))"
proof -
  let ?F = "AList.update ''history'' True FEATURES"
  let ?argv = "[''agile_calculator.py'', ''add'', ''5'', ''3'']"
  let ?c = "\<lparr>add = Calculator_subtract, subtract = Calculator_subtract\<rparr>"
  let ?wargv = "[''waterfall_calculator.py'', ''add'', ''5'', ''3'']"
  have "\<forall>e. agile_tests ?F = Inl e \<longrightarrow> agile_main ?F ?argv = ([], Uncaught e)"
    using self_tests_first [of ?argv ?F] by blast
  then have 1: "agile_main ?F ?argv =
     ([], Uncaught (AssertionError ''History should not be accessible when feature is off.''))"
    using history_on_tests by blast
  have t: "waterfall_self_test ?c = Inl (AssertionError [])"
    by (simp add: waterfall_self_test_def Calculator_subtract_def bind_def py_assert_def
          py_eq_def)
  have "\<forall>e. waterfall_self_test ?c = Inl e \<longrightarrow> waterfall_main ?c ?wargv = ([], Uncaught e)"
    using self_tests_first [of ?wargv _ ?c] by blast
  then have 2: "waterfall_main ?c ?wargv = ([], Uncaught (AssertionError []))"
    using t by blast
  show ?thesis using history_on_tests 1 t 2 by (intro conjI)
qed

text \<open>
  C10: the fixed calculator converts both operands before it looks at the operation
  name. With exactly three arguments of which an operand is not a float literal, the
  process ends with the uncaught \<^verbatim>\<open>ValueError\<close> of the first operand that fails, and
  prints neither the usage line nor the rejection line, whatever the operation name is.
\<close>

theorem waterfall_bad_operand:
  assumes "length argv = 4"
      and "isl (py_float (argv ! 2)) \<or> isl (py_float (argv ! 3))"
  shows "waterfall_main calc argv =
           ([], Uncaught (ValueError (''could not convert string to float: '' @
              py_repr (if isl (py_float (argv ! 2)) then argv ! 2 else argv ! 3))))"
proof (cases "py_float (argv ! 2)")
  case (Inl e)
  then show ?thesis
    using assms(1) py_float_Inl [OF Inl]
    by (simp add: waterfall_main_eq waterfall_run_cli_def)
next
  case a: (Inr a)
  then obtain e where e: "py_float (argv ! 3) = Inl e"
    using assms(2) by (cases "py_float (argv ! 3)") auto
  show ?thesis
    using assms(1) a e py_float_Inl [OF e]
    by (simp add: waterfall_main_eq waterfall_run_cli_def)
qed

theorem waterfall_bad_operand_witness:
  "length [''waterfall_calculator.py'', ''multiply'', ''x'', ''3''] = 4
   \<and> isl (py_float ''x'')
   \<and> waterfall_main calc [''waterfall_calculator.py'', ''multiply'', ''x'', ''3''] =
       ([], Uncaught (ValueError (''could not convert string to float: '' @
                                  [CHR 0x27] @ ''x'' @ [CHR 0x27])))"
proof -
  let ?argv = "[''waterfall_calculator.py'', ''multiply'', ''x'', ''3'']"
  have l: "length ?argv = 4" by simp
  have b: "isl (py_float (?argv ! 2)) \<or> isl (py_float (?argv ! 3))"
    by (simp add: py_float_x)
  show ?thesis
    using waterfall_bad_operand [OF l b] by (simp add: py_float_x)
qed

text \<open>
  C7, as stated, fails: with three arguments and the operation \<^verbatim>\<open>add\<close>, an operand
  that is not a float literal ends the run with an uncaught \<^verbatim>\<open>ValueError\<close>: nothing is
  printed and the exit status is not 0.
\<close>

theorem waterfall_cli_counterexample:
  "length [''waterfall_calculator.py'', ''add'', ''x'', ''3''] = 4
   \<and> [''waterfall_calculator.py'', ''add'', ''x'', ''3''] ! 1 = ''add''
   \<and> waterfall_main calc [''waterfall_calculator.py'', ''add'', ''x'', ''3''] =
       ([], Uncaught (ValueError (''could not convert string to float: '' @
                                  [CHR 0x27] @ ''x'' @ [CHR 0x27])))
   \<and> exit_code (snd (waterfall_main calc [''waterfall_calculator.py'', ''add'', ''x'', ''3''])) \<noteq> 0"
  by (simp add: waterfall_main_eq waterfall_run_cli_def py_float_x)

text \<open>
  C7, amended: with an argument count other than 3 the fixed calculator prints the
  usage line and exits with code 1. With 3 arguments whose two operands are float
  literals, it prints the sum for \<^verbatim>\<open>add\<close> and the difference for \<^verbatim>\<open>subtract\<close> and exits
  with code 0, and for any other operation name it prints the rejection line and exits
  with code 2.
\<close>

theorem waterfall_cli:
  "(length argv \<noteq> 4 \<longrightarrow>
      waterfall_main calc argv = ([Text waterfall_usage], SysExit 1) \<and>
      exit_code (snd (waterfall_main calc argv)) = 1)
   \<and> (length argv = 4 \<and> py_float (argv ! 2) = Inr a \<and> py_float (argv ! 3) = Inr b \<longrightarrow>
        (argv ! 1 = ''add'' \<longrightarrow>
           waterfall_main calc argv = ([Num (PFloat (fadd a b))], Returned))
      \<and> (argv ! 1 = ''subtract'' \<longrightarrow>
           waterfall_main calc argv = ([Num (PFloat (fsub a b))], Returned))
      \<and> (argv ! 1 = ''add'' \<or> argv ! 1 = ''subtract'' \<longrightarrow>
           exit_code (snd (waterfall_main calc argv)) = 0)
      \<and> (argv ! 1 \<noteq> ''add'' \<and> argv ! 1 \<noteq> ''subtract'' \<longrightarrow>
           waterfall_main calc argv = ([Text waterfall_rejection], SysExit 2) \<and>
           exit_code (snd (waterfall_main calc argv)) = 2))"
  unfolding waterfall_main_eq
  by (auto simp: waterfall_run_cli_def print_result_def calc_def
        Calculator_add_def Calculator_subtract_def float_op_def bind_def)

theorem waterfall_cli_witness:
  "py_float ''5'' = Inr (Finite 5) \<and> py_float ''3'' = Inr (Finite 3)
   \<and> py_float ''2'' = Inr (Finite 2)
   \<and> waterfall_main calc [''waterfall_calculator.py'', ''add''] =
       ([Text waterfall_usage], SysExit 1)
   \<and> waterfall_main calc [''waterfall_calculator.py'', ''add'', ''5'', ''3''] =
       ([Num (PFloat (Finite 8))], Returned)
   \<and> waterfall_main calc [''waterfall_calculator.py'', ''subtract'', ''5'', ''3''] =
       ([Num (PFloat (Finite 2))], Returned)
   \<and> waterfall_main calc [''waterfall_calculator.py'', ''multiply'', ''2'', ''3''] =
       ([Text waterfall_rejection], SysExit 2)"
  using waterfall_cli [of "[''waterfall_calculator.py'', ''add'']"]
        waterfall_cli [of "[''waterfall_calculator.py'', ''add'', ''5'', ''3'']"
          "Finite 5" "Finite 3"]
        waterfall_cli [of "[''waterfall_calculator.py'', ''subtract'', ''5'', ''3'']"
          "Finite 5" "Finite 3"]
        waterfall_cli [of "[''waterfall_calculator.py'', ''multiply'', ''2'', ''3'']"
          "Finite 2" "Finite 3"]
  by (simp add: py_float_5 py_float_3 py_float_2 fadd_5_3 fsub_5_3)

text \<open>
  C6, as stated, fails: with three arguments of which an operand is not a float
  literal, the toggleable calculator prints no usage text; the \<^verbatim>\<open>ValueError\<close> of
  \<^verbatim>\<open>float\<close> is raised outside the \<^verbatim>\<open>try\<close> and ends the process with a non-zero status.
\<close>

theorem agile_cli_counterexample:
  "agile_main FEATURES [''agile_calculator.py'', ''add'', ''x'', ''3''] =
     ([], Uncaught (ValueError (''could not convert string to float: '' @ [CHR 0x27] @ ''x'' @ [CHR 0x27])))
   \<and> exit_code (snd (agile_main FEATURES [''agile_calculator.py'', ''add'', ''x'', ''3''])) \<noteq> 0"
  by (simp add: agile_main_FEATURES agile_run_cli_def py_float_x)

text \<open>
  C6, amended: every invocation of the toggleable calculator exits with code 0,
  except three arguments (the first neither \<^verbatim>\<open>backlog\<close> nor \<^verbatim>\<open>features\<close>) with an
  operand that is not a float literal. No arguments, or a wrong argument count, prints
  the usage text; an unknown operation name prints the "Not available yet" message;
  and \<^verbatim>\<open>run_cli\<close> prints that message for every name that is not in the registry
  of the flags it runs under, so also for an operation whose flag is off.
\<close>

theorem agile_cli:
  assumes "args = drop 1 argv"
      and "\<not> (length args = 3 \<and> args ! 0 \<noteq> ''backlog'' \<and> args ! 0 \<noteq> ''features'' \<and>
              (isl (py_float (args ! 1)) \<or> isl (py_float (args ! 2))))"
  shows "exit_code (snd (agile_main FEATURES argv)) = 0
   \<and> (args = [] \<or> (length args \<noteq> 3 \<and> args ! 0 \<noteq> ''backlog'' \<and> args ! 0 \<noteq> ''features'') \<longrightarrow>
        agile_main FEATURES argv = ([Text agile_run_cli_doc], Returned))
   \<and> (length args = 3 \<and>
        args ! 0 \<notin> set [''backlog'', ''features'', ''add'', ''subtract'', ''multiply'', ''divide''] \<longrightarrow>
        agile_main FEATURES argv =
          ([Text (''Not available yet: Feature '' @ [CHR 0x27] @ args ! 0 @ [CHR 0x27] @
                  '' not available yet (toggle off or not built).'')], Returned))
   \<and> (\<forall>F c. AgileCalculator_init F = Inr c \<and> length args = 3 \<and> args ! 0 \<noteq> ''backlog'' \<and>
              args ! 0 \<noteq> ''features'' \<and> ops c (args ! 0) = None \<longrightarrow>
          agile_run_cli F argv =
            ([Text (''Not available yet: Feature '' @ [CHR 0x27] @ args ! 0 @ [CHR 0x27] @
                    '' not available yet (toggle off or not built).'')], Returned))"
proof -
  have three: "\<exists>a b. py_float (args ! 1) = Inr a \<and> py_float (args ! 2) = Inr b"
    if "length args = 3" "args ! 0 \<noteq> ''backlog''" "args ! 0 \<noteq> ''features''"
    using that assms(2)
    by (cases "py_float (args ! 1)"; cases "py_float (args ! 2)") auto
  have cli: "agile_run_cli F argv =
            ([Text (''Not available yet: Feature '' @ [CHR 0x27] @ args ! 0 @ [CHR 0x27] @
                    '' not available yet (toggle off or not built).'')], Returned)"
    if h: "AgileCalculator_init F = Inr c" "length args = 3" "args ! 0 \<noteq> ''backlog''"
       "args ! 0 \<noteq> ''features''" "ops c (args ! 0) = None" for F c
  proof -
    obtain a b where "py_float (args ! 1) = Inr a" "py_float (args ! 2) = Inr b"
      using three h by blast
    then show ?thesis
      using agile_run_cli_three [of argv a b F c] h unfolding assms(1) by auto
  qed
  have ending: "snd (agile_run_cli FEATURES argv) = Returned"
  proof (cases "length args = 3 \<and> args ! 0 \<noteq> ''backlog'' \<and> args ! 0 \<noteq> ''features''")
    case True
    then obtain a b where ab: "py_float (args ! 1) = Inr a" "py_float (args ! 2) = Inr b"
      using three by blast
    have "\<exists>out. agile_run_cli FEATURES argv = ([out], Returned)"
      using agile_run_cli_three [of argv a b FEATURES, OF _ _ _ _ _ init_FEATURES] True ab
      unfolding assms(1) by blast
    then show ?thesis by auto
  next
    case False
    then show ?thesis
      using assms(1) by (auto simp: agile_run_cli_def Let_def)
  qed
  have usage: "agile_run_cli FEATURES argv = ([Text agile_run_cli_doc], Returned)"
    if "args = [] \<or> (length args \<noteq> 3 \<and> args ! 0 \<noteq> ''backlog'' \<and> args ! 0 \<noteq> ''features'')"
    using that assms(1) by (auto simp: agile_run_cli_def Let_def)
  have unknown: "agile_run_cli FEATURES argv =
          ([Text (''Not available yet: Feature '' @ [CHR 0x27] @ args ! 0 @ [CHR 0x27] @
                  '' not available yet (toggle off or not built).'')], Returned)"
    if "length args = 3"
       "args ! 0 \<notin> set [''backlog'', ''features'', ''add'', ''subtract'', ''multiply'', ''divide'']"
  proof (rule cli [OF init_FEATURES])
    show "length args = 3" by (rule that(1))
    show "args ! 0 \<noteq> ''backlog''" "args ! 0 \<noteq> ''features''" using that(2) by simp_all
    show "ops \<lparr>history = [],
               ops = [''add'' \<mapsto> op_add, ''subtract'' \<mapsto> op_subtract,
                      ''multiply'' \<mapsto> op_multiply, ''divide'' \<mapsto> op_divide]\<rparr> (args ! 0) = None"
      using that(2) by simp
  qed
  show ?thesis
    using ending usage unknown cli by (simp add: agile_main_FEATURES)
qed

theorem agile_cli_witness:
  "agile_main FEATURES [''agile_calculator.py''] = ([Text agile_run_cli_doc], Returned)
   \<and> agile_main FEATURES [''agile_calculator.py'', ''add'', ''5''] =
       ([Text agile_run_cli_doc], Returned)
   \<and> py_float ''2'' = Inr (Finite 2) \<and> py_float ''3'' = Inr (Finite 3)
   \<and> agile_main FEATURES [''agile_calculator.py'', ''power'', ''2'', ''3''] =
       ([Text (''Not available yet: Feature '' @ [CHR 0x27] @ ''power'' @ [CHR 0x27] @
               '' not available yet (toggle off or not built).'')], Returned)
   \<and> exit_code (snd (agile_main FEATURES [''agile_calculator.py'', ''power'', ''2'', ''3''])) = 0"
  using agile_cli [of "[]" "[''agile_calculator.py'']"]
        agile_cli [of "[''add'', ''5'']" "[''agile_calculator.py'', ''add'', ''5'']"]
        agile_cli [of "[''power'', ''2'', ''3'']" "[''agile_calculator.py'', ''power'', ''2'', ''3'']"]
  by (simp add: py_float_2 py_float_3)

text \<open>
  C4: while the history flag is true, a call of \<^verbatim>\<open>run\<close> that returns \<open>r\<close> leaves the
  history it found with \<open>(op, a, b, r)\<close> added at the end, and nothing else of the
  object changed. So on a fresh calculator with \<^verbatim>\<open>add\<close> and \<^verbatim>\<open>subtract\<close> on,
  \<^verbatim>\<open>run("add", 2, 3)\<close> returns 5, \<^verbatim>\<open>run("subtract", 7, 4)\<close> returns 3, and
  \<^verbatim>\<open>get_history()\<close> then returns the two entries in that order.
\<close>

theorem history_append:
  assumes "map_of F ''history'' = Some True"
  shows "(run F self op a b = (Inr r, self') \<longrightarrow>
            history self' = history self @ [(op, a, b, r)] \<and> ops self' = ops self \<and>
            get_history F self' = Inr (history self @ [(op, a, b, r)]))
       \<and> (AgileCalculator_init F = Inr c0 \<and> map_of F ''add'' = Some True \<and>
          map_of F ''subtract'' = Some True \<longrightarrow>
            (case run F c0 ''add'' (PInt 2) (PInt 3) of
               (r1, c1) \<Rightarrow>
                 (case run F c1 ''subtract'' (PInt 7) (PInt 4) of
                    (r2, c2) \<Rightarrow> r1 = Inr (PInt 5) \<and> r2 = Inr (PInt 3) \<and>
                      get_history F c2 =
                        Inr [(''add'', PInt 2, PInt 3, PInt 5),
                             (''subtract'', PInt 7, PInt 4, PInt 3)])))"
proof -
  have on: "get_truthy F ''history''" using assms by (simp add: get_truthy_def)
  have step: "history self' = history self @ [(op, a, b, r)] \<and> ops self' = ops self \<and>
            get_history F self' = Inr (history self @ [(op, a, b, r)])"
    if "run F self op a b = (Inr r, self')"
    using that on
    by (auto simp: run_def get_history_def split: option.splits sum.splits)
  have scen: "(case run F c0 ''add'' (PInt 2) (PInt 3) of
               (r1, c1) \<Rightarrow>
                 (case run F c1 ''subtract'' (PInt 7) (PInt 4) of
                    (r2, c2) \<Rightarrow> r1 = Inr (PInt 5) \<and> r2 = Inr (PInt 3) \<and>
                      get_history F c2 =
                        Inr [(''add'', PInt 2, PInt 3, PInt 5),
                             (''subtract'', PInt 7, PInt 4, PInt 3)]))"
    if i: "AgileCalculator_init F = Inr c0" and f: "map_of F ''add'' = Some True"
       "map_of F ''subtract'' = Some True"
  proof -
    have o: "ops c0 ''add'' = Some op_add" "ops c0 ''subtract'' = Some op_subtract"
      using init_Inr(2) [OF i] f by simp_all
    have h: "history c0 = []" using init_Inr(1) [OF i] .
    show ?thesis
      using o h on by (simp add: run_def get_history_def op_add_def op_subtract_def)
  qed
  show ?thesis
  proof (intro conjI impI)
    assume r: "run F self op a b = (Inr r, self')"
    show "history self' = history self @ [(op, a, b, r)]" using step [OF r] by simp
    show "ops self' = ops self" using step [OF r] by simp
    show "get_history F self' = Inr (history self @ [(op, a, b, r)])" using step [OF r] by simp
  next
    assume "AgileCalculator_init F = Inr c0 \<and> map_of F ''add'' = Some True \<and>
            map_of F ''subtract'' = Some True"
    then show "(case run F c0 ''add'' (PInt 2) (PInt 3) of
               (r1, c1) \<Rightarrow>
                 (case run F c1 ''subtract'' (PInt 7) (PInt 4) of
                    (r2, c2) \<Rightarrow> r1 = Inr (PInt 5) \<and> r2 = Inr (PInt 3) \<and>
                      get_history F c2 =
                        Inr [(''add'', PInt 2, PInt 3, PInt 5),
                             (''subtract'', PInt 7, PInt 4, PInt 3)]))"
      using scen by simp
  qed
qed

theorem history_append_witness:
  "map_of (AList.update ''history'' True FEATURES) ''history'' = Some True
   \<and> (case run (AList.update ''history'' True FEATURES)
             \<lparr>history = [], ops = [''add'' \<mapsto> op_add, ''subtract'' \<mapsto> op_subtract,
                 ''multiply'' \<mapsto> op_multiply, ''divide'' \<mapsto> op_divide]\<rparr>
             ''add'' (PInt 2) (PInt 3) of
        (r1, c1) \<Rightarrow>
          (case run (AList.update ''history'' True FEATURES) c1 ''subtract'' (PInt 7) (PInt 4) of
             (r2, c2) \<Rightarrow> r1 = Inr (PInt 5) \<and> r2 = Inr (PInt 3) \<and>
               get_history (AList.update ''history'' True FEATURES) c2 =
                 Inr [(''add'', PInt 2, PInt 3, PInt 5), (''subtract'', PInt 7, PInt 4, PInt 3)]))"
proof -
  let ?F = "AList.update ''history'' True FEATURES"
  have h: "map_of ?F ''history'' = Some True" by (simp add: FEATURES_def)
  have f: "map_of ?F ''add'' = Some True" "map_of ?F ''subtract'' = Some True"
    by (simp_all add: FEATURES_def)
  have "AgileCalculator_init ?F = Inr \<lparr>history = [],
          ops = [''add'' \<mapsto> op_add, ''subtract'' \<mapsto> op_subtract,
                 ''multiply'' \<mapsto> op_multiply, ''divide'' \<mapsto> op_divide]\<rparr> \<and>
        map_of ?F ''add'' = Some True \<and> map_of ?F ''subtract'' = Some True"
    using init_history_on f by simp
  from history_append [OF h, THEN conjunct2, THEN mp, OF this] h
  show ?thesis by (intro conjI)
qed

text \<open>
  C2, as stated, fails for the history flag: it is read at every call. On the
  calculator built under the shipped flags, \<^verbatim>\<open>get_history\<close> raises; once the history
  entry of the table is set, the same call on the same object returns the empty list.
\<close>

theorem flags_counterexample:
  "AgileCalculator_init FEATURES =
     Inr \<lparr>history = [], ops = [''add'' \<mapsto> op_add, ''subtract'' \<mapsto> op_subtract,
                 ''multiply'' \<mapsto> op_multiply, ''divide'' \<mapsto> op_divide]\<rparr>
   \<and> get_history FEATURES
        \<lparr>history = [], ops = [''add'' \<mapsto> op_add, ''subtract'' \<mapsto> op_subtract,
                 ''multiply'' \<mapsto> op_multiply, ''divide'' \<mapsto> op_divide]\<rparr> =
       Inl (RuntimeError ''History feature not enabled yet.'')
   \<and> get_history (AList.update ''history'' True FEATURES)
        \<lparr>history = [], ops = [''add'' \<mapsto> op_add, ''subtract'' \<mapsto> op_subtract,
                 ''multiply'' \<mapsto> op_multiply, ''divide'' \<mapsto> op_divide]\<rparr> = Inr []"
proof -
  have "get_truthy FEATURES ''history'' = False"
       "get_truthy (AList.update ''history'' True FEATURES) ''history'' = True"
    by (simp_all add: get_truthy_def FEATURES_def)
  then show ?thesis
    by (simp add: init_FEATURES get_history_def)
qed

text \<open>
  C2, amended: on a constructed calculator an operation name is callable (\<^verbatim>\<open>run\<close> does
  not raise "feature unavailable") if and only if it is one of the four operation
  names and its flag was true at construction. \<^verbatim>\<open>run\<close> and \<^verbatim>\<open>get_history\<close> depend on
  the flag table at the time of the call only through its \<^verbatim>\<open>history\<close> entry: two
  tables that agree there give the same results and the same object.
\<close>

theorem flags_read_at_construction:
  assumes "AgileCalculator_init F = Inr c"
  shows "(fst (run F' c op a b) \<noteq> Inl (unavailable op) \<longleftrightarrow>
            op \<in> set [''add'', ''subtract'', ''multiply'', ''divide''] \<and> map_of F op = Some True)
       \<and> (map_of F' ''history'' = map_of F'' ''history'' \<longrightarrow>
            run F' self op a b = run F'' self op a b \<and>
            get_history F' self = get_history F'' self)"
proof -
  have reg: "ops c op \<noteq> None \<longleftrightarrow>
            op \<in> set [''add'', ''subtract'', ''multiply'', ''divide''] \<and> map_of F op = Some True"
    using init_Inr(2) [OF assms, of op] by (auto split: if_splits)
  have some: "fst (run F' c op a b) \<noteq> Inl (unavailable op)" if s: "ops c op = Some f" for f
  proof -
    have "f \<in> {op_add, op_subtract, op_multiply, op_divide}"
      using init_Inr(2) [OF assms, of op] s by (auto split: if_splits)
    then have "f a b \<noteq> Inl (unavailable op)"
      unfolding unavailable_def by (rule op_not_ValueError)
    then show ?thesis
      using s by (auto simp: run_def split: sum.splits)
  qed
  have none: "fst (run F' c op a b) = Inl (unavailable op)" if "ops c op = None"
    using that by (simp add: run_def)
  have callable: "fst (run F' c op a b) \<noteq> Inl (unavailable op) \<longleftrightarrow> ops c op \<noteq> None"
    using some none by (cases "ops c op") auto
  have same: "run F' self op a b = run F'' self op a b \<and>
            get_history F' self = get_history F'' self"
    if "map_of F' ''history'' = map_of F'' ''history''"
  proof -
    have g: "get_truthy F' ''history'' = get_truthy F'' ''history''"
      using that by (simp add: get_truthy_def)
    show ?thesis unfolding run_def get_history_def g by simp
  qed
  show ?thesis
    using callable reg same by blast
qed

theorem flags_read_at_construction_witness:
  "AgileCalculator_init FEATURES =
     Inr \<lparr>history = [], ops = [''add'' \<mapsto> op_add, ''subtract'' \<mapsto> op_subtract,
                 ''multiply'' \<mapsto> op_multiply, ''divide'' \<mapsto> op_divide]\<rparr>
   \<and> map_of (AList.update ''add'' False FEATURES) ''history'' = map_of FEATURES ''history''
   \<and> run (AList.update ''add'' False FEATURES)
        \<lparr>history = [], ops = [''add'' \<mapsto> op_add, ''subtract'' \<mapsto> op_subtract,
                 ''multiply'' \<mapsto> op_multiply, ''divide'' \<mapsto> op_divide]\<rparr>
        ''add'' (PInt 2) (PInt 3) =
     run FEATURES
        \<lparr>history = [], ops = [''add'' \<mapsto> op_add, ''subtract'' \<mapsto> op_subtract,
                 ''multiply'' \<mapsto> op_multiply, ''divide'' \<mapsto> op_divide]\<rparr>
        ''add'' (PInt 2) (PInt 3)
   \<and> fst (run (AList.update ''add'' False FEATURES)
        \<lparr>history = [], ops = [''add'' \<mapsto> op_add, ''subtract'' \<mapsto> op_subtract,
                 ''multiply'' \<mapsto> op_multiply, ''divide'' \<mapsto> op_divide]\<rparr>
        ''add'' (PInt 2) (PInt 3)) \<noteq> Inl (unavailable ''add'')"
proof -
  let ?G = "AList.update ''add'' False FEATURES"
  let ?c = "\<lparr>history = [], ops = [''add'' \<mapsto> op_add, ''subtract'' \<mapsto> op_subtract,
                 ''multiply'' \<mapsto> op_multiply, ''divide'' \<mapsto> op_divide]\<rparr>"
  have h: "map_of ?G ''history'' = map_of FEATURES ''history''"
    by (simp add: FEATURES_def)
  have f: "''add'' \<in> set [''add'', ''subtract'', ''multiply'', ''divide''] \<and>
           map_of FEATURES ''add'' = Some True"
    by (simp add: FEATURES_def)
  note t = flags_read_at_construction [OF init_FEATURES, of ?G "''add''" "PInt 2" "PInt 3"
             FEATURES ?c]
  have 1: "fst (run ?G ?c ''add'' (PInt 2) (PInt 3)) \<noteq> Inl (unavailable ''add'')"
    using t f by blast
  have 2: "run ?G ?c ''add'' (PInt 2) (PInt 3) = run FEATURES ?c ''add'' (PInt 2) (PInt 3)"
    using t h by blast
  show ?thesis using init_FEATURES h 1 2 by (intro conjI)
qed

text \<open>
  C1, as stated, fails: the operands of \<^verbatim>\<open>run("add", 1e16, 1.0)\<close> are finite floats,
  the call returns \<^verbatim>\<open>1e16\<close>, and the mathematically correct sum is \<open>10 ^ 16 + 1\<close>, at
  distance 1 from it. The failures begin right above \<open>2 ^ 24\<close>:
  \<^verbatim>\<open>run("add", 16777216.0, 2.0 ** -29)\<close> returns \<^verbatim>\<open>16777216.0\<close>, at distance
  \<open>2 powi (- 29)\<close> from the sum. And an int that does not convert to a float exactly
  loses its last bit next to a float: \<^verbatim>\<open>run("add", 2 ** 53 + 1, -9007199254740992.0)\<close>
  returns \<^verbatim>\<open>0.0\<close> where the sum is 1.
\<close>

theorem run_result_counterexample:
  "AgileCalculator_init FEATURES =
     Inr \<lparr>history = [], ops = [''add'' \<mapsto> op_add, ''subtract'' \<mapsto> op_subtract,
                 ''multiply'' \<mapsto> op_multiply, ''divide'' \<mapsto> op_divide]\<rparr>
   \<and> round_double 10000000000000000 = Finite 10000000000000000
   \<and> round_double 1 = Finite 1
   \<and> fst (run FEATURES
        \<lparr>history = [], ops = [''add'' \<mapsto> op_add, ''subtract'' \<mapsto> op_subtract,
                 ''multiply'' \<mapsto> op_multiply, ''divide'' \<mapsto> op_divide]\<rparr>
        ''add'' (PFloat (Finite 10000000000000000)) (PFloat (Finite 1))) =
       Inr (PFloat (Finite 10000000000000000))
   \<and> \<not> \<bar>10000000000000000 - exact_result ''add'' 10000000000000000 1\<bar> < 1 / 10 ^ 9
   \<and> round_double 16777216 = Finite 16777216
   \<and> round_double (1 / 536870912) = Finite (1 / 536870912)
   \<and> fst (run FEATURES
        \<lparr>history = [], ops = [''add'' \<mapsto> op_add, ''subtract'' \<mapsto> op_subtract,
                 ''multiply'' \<mapsto> op_multiply, ''divide'' \<mapsto> op_divide]\<rparr>
        ''add'' (PFloat (Finite 16777216)) (PFloat (Finite (1 / 536870912)))) =
       Inr (PFloat (Finite 16777216))
   \<and> \<not> \<bar>16777216 - exact_result ''add'' 16777216 (1 / 536870912)\<bar> < 1 / 10 ^ 9
   \<and> fst (run FEATURES
        \<lparr>history = [], ops = [''add'' \<mapsto> op_add, ''subtract'' \<mapsto> op_subtract,
                 ''multiply'' \<mapsto> op_multiply, ''divide'' \<mapsto> op_divide]\<rparr>
        ''add'' (PInt 9007199254740993) (PFloat (Finite (- 9007199254740992)))) =
       Inr (PFloat (Finite 0))
   \<and> \<not> \<bar>0 - exact_result ''add'' 9007199254740993 (- 9007199254740992)\<bar> < 1 / 10 ^ 9"
proof -
  let ?c = "\<lparr>history = [], ops = [''add'' \<mapsto> op_add, ''subtract'' \<mapsto> op_subtract,
                 ''multiply'' \<mapsto> op_multiply, ''divide'' \<mapsto> op_divide]\<rparr>"
  have one: "round_double 1 = Finite 1" using round_double_int [of 1] by simp
  have p24: "round_double 16777216 = Finite 16777216"
    using round_double_int [of 16777216] by simp
  have r: "fst (run FEATURES ?c ''add'' a b) = op_add a b" for a b
    by (cases "op_add a b") (simp_all add: run_def)
  have 1: "op_add (PFloat (Finite 10000000000000000)) (PFloat (Finite 1)) =
           Inr (PFloat (Finite 10000000000000000))"
    by (simp add: float_ops fadd_def round_double_1e16_1)
  have 2: "op_add (PFloat (Finite 16777216)) (PFloat (Finite (1 / 536870912))) =
           Inr (PFloat (Finite 16777216))"
    by (simp add: float_ops fadd_def round_double_2p24)
  have 3: "op_add (PInt 9007199254740993) (PFloat (Finite (- 9007199254740992))) =
           Inr (PFloat (Finite 0))"
    by (simp add: op_add_def float_op_def float_of_int_def round_double_2p53_1 bind_def
          fadd_def signed_zero_def)
  have e: "\<not> \<bar>10000000000000000 - exact_result ''add'' 10000000000000000 1\<bar> < 1 / 10 ^ 9"
       "\<not> \<bar>16777216 - exact_result ''add'' 16777216 (1 / 536870912)\<bar> < 1 / 10 ^ 9"
       "\<not> \<bar>0 - exact_result ''add'' 9007199254740993 (- 9007199254740992)\<bar> < 1 / 10 ^ 9"
    by (simp_all add: exact_result_def)
  show ?thesis
    using init_FEATURES round_double_1e16 one p24 round_double_2m29 e
    by (simp only: r 1 2 3) simp
qed

text \<open>
  C1, amended: for an operation enabled at construction and operands that are two
  ints, or each a finite float or an int that converts to a float without rounding
  (every int of magnitude at most \<open>2 ^ 53\<close> does), \<^verbatim>\<open>run\<close> returns positive infinity
  when the operation is \<^verbatim>\<open>divide\<close> and \<open>b\<close> is zero; it returns the exact int for
  \<^verbatim>\<open>add\<close>, \<^verbatim>\<open>subtract\<close> and \<^verbatim>\<open>multiply\<close> of two ints, whatever their magnitude; and
  otherwise, whenever the mathematically correct result has magnitude at most \<open>2 ^ 24\<close>
  or is itself a double, it returns a finite number within \<open>1e-9\<close> of it. Off the
  two-int case a result other than zero is the mathematically correct result rounded
  once to the nearest double, so nothing but that rounding separates the two.
\<close>

theorem run_result_near:
  assumes "AgileCalculator_init F = Inr c"
      and "op \<in> set [''add'', ''subtract'', ''multiply'', ''divide'']"
      and "map_of F op = Some True"
      and ok: "(is_int a \<and> is_int b) \<or> (exact_operand a \<and> exact_operand b)"
  shows "(op = ''divide'' \<and> num_val b = 0 \<longrightarrow> fst (run F' c op a b) = Inr (PFloat PInf))
       \<and> (is_int a \<and> is_int b \<and> op \<noteq> ''divide'' \<longrightarrow>
            (\<exists>k. fst (run F' c op a b) = Inr (PInt k) \<and>
                 of_int k = exact_result op (num_val a) (num_val b)))
       \<and> (\<not> (op = ''divide'' \<and> num_val b = 0) \<and>
          within_reach (exact_result op (num_val a) (num_val b)) \<longrightarrow>
            (\<exists>r. fst (run F' c op a b) = Inr r \<and> finite_num r \<and>
                 \<bar>num_val r - exact_result op (num_val a) (num_val b)\<bar> < 1 / 10 ^ 9))
       \<and> (\<not> (is_int a \<and> is_int b) \<and> \<not> (op = ''divide'' \<and> num_val b = 0) \<and>
          exact_result op (num_val a) (num_val b) \<noteq> 0 \<longrightarrow>
            fst (run F' c op a b) =
              Inr (PFloat (round_double (exact_result op (num_val a) (num_val b)))))"
proof -
  have tol: "t < 1 / 10 ^ 9" if "t \<le> 1 / 2 ^ 30" for t :: rat
  proof -
    have "(1::rat) / 2 ^ 30 < 1 / 10 ^ 9" by simp
    with that show ?thesis by linarith
  qed
  have reg: "ops c op =
            (if op = ''divide'' then Some op_divide
             else if op = ''multiply'' then Some op_multiply
             else if op = ''subtract'' then Some op_subtract
             else Some op_add)"
    using init_Inr(2) [OF assms(1), of op] assms(2,3) by auto
  have fb: "finite_num b" using ok by (intro operand_finite) auto
  have result: "fst (run F' c op a b) = f a b" if "ops c op = Some f" for f
    using that by (cases "f a b") (simp_all add: run_def)
  have zero: "fst (run F' c op a b) = Inr (PFloat PInf)" if "op = ''divide''" "num_val b = 0"
    using that reg py_ne_zero_num [OF fb] result [of op_divide]
    by (simp add: op_divide_def)
  have ints: "\<exists>k. fst (run F' c op a b) = Inr (PInt k) \<and>
                 of_int k = exact_result op (num_val a) (num_val b)"
    if i: "is_int a" "is_int b" and nd: "op \<noteq> ''divide''"
  proof -
    obtain x y where xy: "a = PInt x" "b = PInt y" using i by (cases a; cases b) simp_all
    consider "op = ''add''" | "op = ''subtract''" | "op = ''multiply''"
      using assms(2) nd by auto
    then show ?thesis
    proof cases
      case 1
      then show ?thesis
        using reg result [of op_add] xy by (simp add: exact_result_def op_add_def)
    next
      case 2
      then show ?thesis
        using reg result [of op_subtract] xy by (simp add: exact_result_def op_subtract_def)
    next
      case 3
      then show ?thesis
        using reg result [of op_multiply] xy by (simp add: exact_result_def op_multiply_def)
    qed
  qed
  have near: "\<exists>r. fst (run F' c op a b) = Inr r \<and> finite_num r \<and>
                 \<bar>num_val r - exact_result op (num_val a) (num_val b)\<bar> < 1 / 10 ^ 9"
    if nz: "\<not> (op = ''divide'' \<and> num_val b = 0)"
       and v: "within_reach (exact_result op (num_val a) (num_val b))"
  proof -
    consider "op = ''add''" | "op = ''subtract''" | "op = ''multiply''" | "op = ''divide''"
      using assms(2) by auto
    then have "\<exists>r. fst (run F' c op a b) = Inr r \<and> finite_num r \<and>
                 \<bar>num_val r - exact_result op (num_val a) (num_val b)\<bar> \<le> 1 / 2 ^ 30"
    proof cases
      case 1
      then show ?thesis
        using py_add_near [OF ok] v reg result [of op_add]
        by (simp add: exact_result_def op_add_def)
    next
      case 2
      then show ?thesis
        using py_sub_near [OF ok] v reg result [of op_subtract]
        by (simp add: exact_result_def op_subtract_def)
    next
      case 3
      then show ?thesis
        using py_mul_near [OF ok] v reg result [of op_multiply]
        by (simp add: exact_result_def op_multiply_def)
    next
      case 4
      then have b0: "num_val b \<noteq> 0" using nz by simp
      show ?thesis
        using 4 py_truediv_near [OF ok b0] v reg result [of op_divide]
          py_ne_zero_num [OF fb] b0
        by (simp add: exact_result_def op_divide_def)
    qed
    then show ?thesis using tol by blast
  qed
  have rounded: "fst (run F' c op a b) =
              Inr (PFloat (round_double (exact_result op (num_val a) (num_val b))))"
    if ni: "\<not> (is_int a \<and> is_int b)" and nz: "\<not> (op = ''divide'' \<and> num_val b = 0)"
       and v: "exact_result op (num_val a) (num_val b) \<noteq> 0"
  proof -
    consider "op = ''add''" | "op = ''subtract''" | "op = ''multiply''" | "op = ''divide''"
      using assms(2) by auto
    then show ?thesis
    proof cases
      case 1
      then show ?thesis
        using py_arith_round(1) [OF ok ni] v reg result [of op_add]
        by (simp add: exact_result_def op_add_def)
    next
      case 2
      then show ?thesis
        using py_arith_round(2) [OF ok ni] v reg result [of op_subtract]
        by (simp add: exact_result_def op_subtract_def)
    next
      case 3
      then show ?thesis
        using py_arith_round(3) [OF ok ni] v reg result [of op_multiply]
        by (simp add: exact_result_def op_multiply_def)
    next
      case 4
      then have b0: "num_val b \<noteq> 0" using nz by simp
      show ?thesis
        using 4 py_arith_round(4) [OF ok ni b0] v reg result [of op_divide]
          py_ne_zero_num [OF fb] b0
        by (simp add: exact_result_def op_divide_def)
    qed
  qed
  show ?thesis using zero ints near rounded by blast
qed

text \<open>
  The witness: \<^verbatim>\<open>divide\<close> of \<^verbatim>\<open>10.0\<close> by \<^verbatim>\<open>0.0\<close>, \<^verbatim>\<open>add\<close> of \<^verbatim>\<open>2.0\<close> and \<^verbatim>\<open>3.0\<close>, and
  \<^verbatim>\<open>subtract\<close> of the ints \<open>2 ^ 60 + 1\<close> and \<open>2 ^ 60\<close>.
\<close>

theorem run_result_near_witness:
  "AgileCalculator_init FEATURES =
     Inr \<lparr>history = [], ops = [''add'' \<mapsto> op_add, ''subtract'' \<mapsto> op_subtract,
                 ''multiply'' \<mapsto> op_multiply, ''divide'' \<mapsto> op_divide]\<rparr>
   \<and> map_of FEATURES ''divide'' = Some True \<and> map_of FEATURES ''add'' = Some True
   \<and> map_of FEATURES ''subtract'' = Some True
   \<and> exact_operand (PFloat (Finite 10)) \<and> exact_operand (PFloat (Finite 0))
   \<and> exact_operand (PFloat (Finite 2)) \<and> exact_operand (PFloat (Finite 3))
   \<and> within_reach (exact_result ''add'' 2 3)
   \<and> fst (run FEATURES
        \<lparr>history = [], ops = [''add'' \<mapsto> op_add, ''subtract'' \<mapsto> op_subtract,
                 ''multiply'' \<mapsto> op_multiply, ''divide'' \<mapsto> op_divide]\<rparr>
        ''divide'' (PFloat (Finite 10)) (PFloat (Finite 0))) = Inr (PFloat PInf)
   \<and> (\<exists>r. fst (run FEATURES
        \<lparr>history = [], ops = [''add'' \<mapsto> op_add, ''subtract'' \<mapsto> op_subtract,
                 ''multiply'' \<mapsto> op_multiply, ''divide'' \<mapsto> op_divide]\<rparr>
        ''add'' (PFloat (Finite 2)) (PFloat (Finite 3))) = Inr r \<and> finite_num r \<and>
          \<bar>num_val r - 5\<bar> < 1 / 10 ^ 9)
   \<and> fst (run FEATURES
        \<lparr>history = [], ops = [''add'' \<mapsto> op_add, ''subtract'' \<mapsto> op_subtract,
                 ''multiply'' \<mapsto> op_multiply, ''divide'' \<mapsto> op_divide]\<rparr>
        ''subtract'' (PInt (2 ^ 60 + 1)) (PInt (2 ^ 60))) = Inr (PInt 1)"
proof -
  let ?c = "\<lparr>history = [], ops = [''add'' \<mapsto> op_add, ''subtract'' \<mapsto> op_subtract,
                 ''multiply'' \<mapsto> op_multiply, ''divide'' \<mapsto> op_divide]\<rparr>"
  have fd: "map_of FEATURES ''divide'' = Some True" and fa: "map_of FEATURES ''add'' = Some True"
    and fs: "map_of FEATURES ''subtract'' = Some True"
    by (simp_all add: FEATURES_def)
  have w: "within_reach (exact_result ''add'' 2 3)"
    by (simp add: within_reach_def exact_result_def)
  have m: "''divide'' \<in> set [''add'', ''subtract'', ''multiply'', ''divide'']"
          "''add'' \<in> set [''add'', ''subtract'', ''multiply'', ''divide'']"
          "''subtract'' \<in> set [''add'', ''subtract'', ''multiply'', ''divide'']"
    by simp_all
  have okd: "(is_int (PFloat (Finite 10)) \<and> is_int (PFloat (Finite 0))) \<or>
             (exact_operand (PFloat (Finite 10)) \<and> exact_operand (PFloat (Finite 0)))"
    and oka: "(is_int (PFloat (Finite 2)) \<and> is_int (PFloat (Finite 3))) \<or>
             (exact_operand (PFloat (Finite 2)) \<and> exact_operand (PFloat (Finite 3)))"
    and oks: "(is_int (PInt (2 ^ 60 + 1)) \<and> is_int (PInt (2 ^ 60))) \<or>
             (exact_operand (PInt (2 ^ 60 + 1)) \<and> exact_operand (PInt (2 ^ 60)))"
    by simp_all
  have d: "fst (run FEATURES ?c ''divide'' (PFloat (Finite 10)) (PFloat (Finite 0))) =
             Inr (PFloat PInf)"
    using run_result_near [OF init_FEATURES m(1) fd okd, of FEATURES, THEN conjunct1]
    by simp
  have a: "\<exists>r. fst (run FEATURES ?c ''add'' (PFloat (Finite 2)) (PFloat (Finite 3))) = Inr r \<and>
             finite_num r \<and> \<bar>num_val r - 5\<bar> < 1 / 10 ^ 9"
    using run_result_near [OF init_FEATURES m(2) fa oka, of FEATURES,
            THEN conjunct2, THEN conjunct2, THEN conjunct1] w
    by (simp add: exact_result_def)
  have "\<exists>k. fst (run FEATURES ?c ''subtract'' (PInt (2 ^ 60 + 1)) (PInt (2 ^ 60))) =
               Inr (PInt k) \<and>
             (of_int k :: rat) = exact_result ''subtract'' (num_val (PInt (2 ^ 60 + 1)))
                                   (num_val (PInt (2 ^ 60)))"
    using run_result_near [OF init_FEATURES m(3) fs oks, of FEATURES,
            THEN conjunct2, THEN conjunct1]
    by simp
  then obtain k where k: "fst (run FEATURES ?c ''subtract'' (PInt (2 ^ 60 + 1)) (PInt (2 ^ 60))) =
               Inr (PInt k)" and "(of_int k :: rat) = 1"
    by (auto simp: exact_result_def)
  then have s: "fst (run FEATURES ?c ''subtract'' (PInt (2 ^ 60 + 1)) (PInt (2 ^ 60))) =
               Inr (PInt 1)"
    by simp
  show ?thesis using init_FEATURES fd fa fs w d a s by simp
qed

end
